theory Spec2Isabelle
  imports Complex_Main "HOL-Library.Sublist" "HOL-Library.Char_ord"
begin

section \<open>Data model of the measurement orchestrator (src/src/App.jsx)\<close>

text \<open>
  The React component \<open>FaceDetectionApp\<close> keeps its state in \<open>useState\<close> cells and
  \<open>useRef\<close> cells. Each event handler is modelled as a function from the state committed
  by the last render to the state after the handler's updates have been applied.
  \<open>Date.now()\<close> is a parameter \<open>now\<close> (milliseconds).
\<close>

text \<open>\<open>WebSocket.readyState\<close>.\<close>

datatype ready_state = CONNECTING | OPEN | CLOSING | CLOSED

text \<open>What is written to the socket with \<open>ws.current.send(JSON.stringify(...))\<close>.\<close>

datatype outbound =
    AuthToken "string option"   \<comment> \<open>\<open>{ token }\<close>\<close>
  | Frame string                \<comment> \<open>\<open>{ image }\<close>\<close>
  | Command string              \<comment> \<open>\<open>{ command }\<close>\<close>
  | Capture string              \<comment> \<open>\<open>{ command: "capture", image }\<close>\<close>

text \<open>
  The values given to \<open>setStatusMessage\<close>. The fixed texts of the source carry
  non-ASCII pictographs, so each fixed text is a constructor of its own; text built from
  a server string keeps that string.
\<close>

datatype status_text =
    Verbatim string             \<comment> \<open>\<open>setStatusMessage(data.message)\<close>; the initial \<open>''\<close>\<close>
  | ErrorPrefix string          \<comment> \<open>\<open>`Error: ${data.error}`\<close>\<close>
  | CalibrationComplete         \<comment> \<open>"Calibration complete! You can now measure distance."\<close>
  | TargetReached               \<comment> \<open>"Perfect! You've reached the 4m distance! Starting countdown ..."\<close>
  | MeasurementComplete         \<comment> \<open>"Distance measurement complete! 4m distance reached and verified."\<close>
  | CalibrationHint             \<comment> \<open>"Stand at one-arm distance and click 'Capture'"\<close>
  | MeasuringHint               \<comment> \<open>"Measuring distance... Try to fit your face in the red reference box at 4m"\<close>

text \<open>The values given to \<open>setCurrentDistance\<close>.\<close>

datatype distance_text =
    ZeroMetres                  \<comment> \<open>the initial \<open>'0m'\<close>\<close>
  | Metres real                 \<comment> \<open>\<open>`${distance}m`\<close>\<close>
  | Calculating                 \<comment> \<open>\<open>'Calculating...'\<close>\<close>

text \<open>
  A callback registered with \<open>setInterval\<close>. \<open>sendFrame\<close> is a \<open>useCallback\<close>
  closure over \<open>isDistanceReached\<close> and \<open>lastFaceDetected\<close>; the interval keeps the
  closure it was given, so the two captured values are part of the callback.
\<close>

datatype timer_cb =
    SendFrameCb bool int
  | CountdownCb

text \<open>\<open>webcamRef.current\<close> and the result of its \<open>getScreenshot()\<close>.\<close>

datatype camera = NoWebcam | Webcam "string option"

text \<open>
  The state of \<open>FaceDetectionApp\<close>: the \<open>useState\<close> cells, the \<open>useRef\<close> cells, the
  browser's table of active intervals, and the record of what was sent on the socket.
  Timer handles are the positive integers the browser hands out, so a stored handle is
  always truthy. \<open>landoltShown\<close> counts the calls \<open>setShowLandoltTest(true)\<close>.
  The cells \<open>connectionStatus\<close>, \<open>fps\<close> and \<open>showAuthModal\<close> and the
  frames-per-second interval are display only and are left out.
\<close>

record face_state =
  showCamera :: bool
  currentDistance :: distance_text
  focalLength :: real
  processedImage :: "string option"
  isCalibrating :: bool
  isCalibrated :: bool
  statusMessage :: status_text
  isMeasuring :: bool
  referenceBox :: "(int \<times> int) option"
  atTargetDistance :: bool
  isDistanceReached :: bool
  lastFaceDetected :: int
  showCountdown :: bool
  countdownValue :: int
  showLandoltTest :: bool
  ws :: "ready_state option"
  detectionInterval :: "nat option"
  frameCount :: nat
  consecutiveTargetFrames :: nat
  framesSinceLastFace :: nat
  countdownTimerRef :: "nat option"
  timers :: "(nat \<times> timer_cb) list"
  nextTimer :: nat
  sent :: "outbound list"
  landoltShown :: nat

text \<open>The state of \<open>AuthProvider\<close> (src/unnamed/part_000) with the \<open>localStorage\<close> entry.\<close>

record auth_state =
  user :: "string option"
  token :: "string option"
  loading :: bool
  storedToken :: "string option"

text \<open>
  A decoded inbound message. Every field is optional; \<open>None\<close> is a field that is absent
  (\<open>undefined\<close>). A field that is present has the type the wire format gives it:
  texts are strings, flags are booleans, \<open>faces\<close> is a list of face objects, each
  given by its numeric \<open>distance\<close>. Objects with a field of another type (a \<open>null\<close>
  in the face list, a number as error text) are not values of this record.
\<close>

record inbound =
  error :: "string option"
  success :: "bool option"
  processed_image :: "string option"
  focal_length :: "real option"
  reference_box :: "(int \<times> int) option"
  message :: "string option"
  face_detected :: "bool option"
  faces :: "real list option"
  at_target_distance :: "bool option"

text \<open>
  The raw payload \<open>event.data\<close> as \<open>JSON.parse\<close> sees it: text that is not JSON, the
  JSON value \<open>null\<close>, another JSON value that is not an object (every property read of
  it is \<open>undefined\<close>), or an object with the fields above.
\<close>

datatype payload = Unparseable | JsonNull | JsonOther | JsonObject inbound

datatype js_error = SyntaxError | TypeError

section \<open>JavaScript helpers\<close>

text \<open>Truthiness of an optional string and of an optional boolean.\<close>

definition truthy_str :: "string option \<Rightarrow> bool" where
  "truthy_str v = (case v of None \<Rightarrow> False | Some t \<Rightarrow> t \<noteq> [])"

definition truthy_bool :: "bool option \<Rightarrow> bool" where
  "truthy_bool v = (case v of None \<Rightarrow> False | Some b \<Rightarrow> b)"

text \<open>\<open>String.prototype.includes\<close>.\<close>

fun includes_str :: "string \<Rightarrow> string \<Rightarrow> bool" where
  "includes_str [] needle = (needle = [])"
| "includes_str (c # cs) needle = (prefix needle (c # cs) \<or> includes_str cs needle)"

text \<open>
  \<open>String.prototype.toLowerCase\<close> on ASCII text: a capital letter gets bit 5 set
  (its code plus 32), every other character stays.
\<close>

definition lower_char :: "char \<Rightarrow> char" where
  "lower_char c =
     (if CHR ''A'' \<le> c \<and> c \<le> CHR ''Z''
      then (case c of Char b0 b1 b2 b3 b4 b5 b6 b7 \<Rightarrow> Char b0 b1 b2 b3 b4 True b6 b7)
      else c)"

definition toLowerCase :: "string \<Rightarrow> string" where
  "toLowerCase t = map lower_char t"

section \<open>Timers and the socket\<close>

definition setInterval :: "timer_cb \<Rightarrow> face_state \<Rightarrow> nat \<times> face_state" where
  "setInterval cb s =
     (nextTimer s, s\<lparr>timers := timers s @ [(nextTimer s, cb)], nextTimer := Suc (nextTimer s)\<rparr>)"

definition clearInterval :: "nat \<Rightarrow> face_state \<Rightarrow> face_state" where
  "clearInterval i s = s\<lparr>timers := filter (\<lambda>p. fst p \<noteq> i) (timers s)\<rparr>"

definition connected :: "face_state \<Rightarrow> bool" where
  "connected s = (ws s = Some OPEN)"

definition ws_send :: "outbound \<Rightarrow> face_state \<Rightarrow> face_state" where
  "ws_send m s = s\<lparr>sent := sent s @ [m]\<rparr>"

section \<open>User commands and the countdown\<close>

definition stopMeasuringDistance :: "face_state \<Rightarrow> face_state" where
  "stopMeasuringDistance s =
     (let s1 = (if connected s then ws_send (Command ''stop_all'') s else s);
          s2 = (case detectionInterval s1 of
                  None \<Rightarrow> s1
                | Some i \<Rightarrow> (clearInterval i s1)\<lparr>detectionInterval := None\<rparr>)
      in s2\<lparr>isMeasuring := False\<rparr>)"

definition startCountdown :: "face_state \<Rightarrow> face_state" where
  "startCountdown s =
     (let s1 = stopMeasuringDistance s;
          s2 = s1\<lparr>showCountdown := True, countdownValue := 5\<rparr>;
          s3 = (case countdownTimerRef s2 of None \<Rightarrow> s2 | Some i \<Rightarrow> clearInterval i s2);
          (i, s4) = setInterval CountdownCb s3
      in s4\<lparr>countdownTimerRef := Some i\<rparr>)"

text \<open>The interval callback of \<open>startCountdown\<close>, run once a second.\<close>

definition countdownTick :: "face_state \<Rightarrow> face_state" where
  "countdownTick s =
     (if countdownValue s \<le> 1 then
        (let s1 = (case countdownTimerRef s of None \<Rightarrow> s | Some i \<Rightarrow> clearInterval i s)
         in s1\<lparr>showCountdown := False, showLandoltTest := True,
                landoltShown := Suc (landoltShown s1), countdownValue := 0\<rparr>)
      else s\<lparr>countdownValue := countdownValue s - 1\<rparr>)"

definition startCalibration :: "face_state \<Rightarrow> face_state" where
  "startCalibration s =
     (if connected s then
        (ws_send (Command ''start_calibration'') s)
          \<lparr>isCalibrating := True, isCalibrated := False, showCamera := True,
           statusMessage := CalibrationHint\<rparr>
      else s)"

definition screenshot :: "camera \<Rightarrow> string option" where
  "screenshot cam = (case cam of NoWebcam \<Rightarrow> None | Webcam img \<Rightarrow> img)"

definition captureCalibration :: "camera \<Rightarrow> face_state \<Rightarrow> face_state" where
  "captureCalibration cam s =
     (case screenshot cam of
        None \<Rightarrow> s
      | Some img \<Rightarrow> if img \<noteq> [] \<and> connected s then ws_send (Capture img) s else s)"

definition startMeasuringDistance :: "face_state \<Rightarrow> face_state" where
  "startMeasuringDistance s =
     (let s1 = s\<lparr>isDistanceReached := False, atTargetDistance := False, showCountdown := False,
                 consecutiveTargetFrames := 0, framesSinceLastFace := 0\<rparr>
      in if connected s1 then
           (let s2 = (ws_send (Command ''start_distance'') s1)\<lparr>isMeasuring := True\<rparr>;
                (i, s3) = setInterval (SendFrameCb (isDistanceReached s) (lastFaceDetected s)) s2
            in s3\<lparr>detectionInterval := Some i, statusMessage := MeasuringHint\<rparr>)
         else s1)"

definition closeLandoltTest :: "face_state \<Rightarrow> face_state" where
  "closeLandoltTest s = s\<lparr>showLandoltTest := False\<rparr>"

section \<open>The Frame Capture Scheduler\<close>

text \<open>
  \<open>sendFrame\<close>, with the two values its closure captured (\<open>reached\<close> is
  \<open>isDistanceReached\<close>, \<open>lastFace\<close> is \<open>lastFaceDetected\<close>), the time and the camera.
\<close>

definition sendFrame :: "bool \<Rightarrow> int \<Rightarrow> int \<Rightarrow> camera \<Rightarrow> face_state \<Rightarrow> face_state" where
  "sendFrame reached lastFace now cam s =
     (if cam = NoWebcam \<or> \<not> connected s then s
      else case screenshot cam of
        None \<Rightarrow> s
      | Some img \<Rightarrow>
          if img = [] then s
          else
            (let s1 = (ws_send (Frame img) s)\<lparr>frameCount := Suc (frameCount s)\<rparr>
             in if reached \<and> now - lastFace > 5000 then
                  (let s2 = s1\<lparr>framesSinceLastFace := Suc (framesSinceLastFace s1)\<rparr>
                   in if framesSinceLastFace s2 > 10
                      then stopMeasuringDistance (s2\<lparr>statusMessage := MeasurementComplete\<rparr>)
                      else s2)
                else s1))"

text \<open>The browser runs the callback of interval \<open>i\<close>, if that interval is still active.\<close>

definition fireTimer :: "nat \<Rightarrow> int \<Rightarrow> camera \<Rightarrow> face_state \<Rightarrow> face_state" where
  "fireTimer i now cam s =
     (case map_of (timers s) i of
        None \<Rightarrow> s
      | Some CountdownCb \<Rightarrow> countdownTick s
      | Some (SendFrameCb reached lastFace) \<Rightarrow> sendFrame reached lastFace now cam s)"

fun fireTimes :: "nat \<Rightarrow> nat \<Rightarrow> int \<Rightarrow> camera \<Rightarrow> face_state \<Rightarrow> face_state" where
  "fireTimes 0 i now cam s = s"
| "fireTimes (Suc n) i now cam s = fireTimes n i now cam (fireTimer i now cam s)"

section \<open>Authentication context and route guard (src/unnamed/part_000)\<close>

definition logout :: "auth_state \<Rightarrow> auth_state" where
  "logout a = a\<lparr>user := None, token := None, storedToken := None\<rparr>"

definition isAuthenticated :: "auth_state \<Rightarrow> bool" where
  "isAuthenticated a = (user a \<noteq> None)"

datatype view = Spinner | LoginPrompt | Children

definition ProtectedRoute :: "auth_state \<Rightarrow> view" where
  "ProtectedRoute a =
     (if loading a then Spinner else if \<not> isAuthenticated a then LoginPrompt else Children)"

text \<open>The state of a freshly mounted \<open>FaceDetectionApp\<close>: the initial values of its cells.\<close>

definition mount :: "int \<Rightarrow> face_state" where
  "mount now =
     \<lparr>showCamera = False, currentDistance = ZeroMetres, focalLength = 0,
      processedImage = None, isCalibrating = False, isCalibrated = False,
      statusMessage = Verbatim [], isMeasuring = False, referenceBox = None,
      atTargetDistance = False, isDistanceReached = False, lastFaceDetected = now,
      showCountdown = False, countdownValue = 5, showLandoltTest = False,
      ws = None, detectionInterval = None, frameCount = 0, consecutiveTargetFrames = 0,
      framesSinceLastFace = 0, countdownTimerRef = None, timers = [], nextTimer = 1,
      sent = [], landoltShown = 0\<rparr>"

text \<open>
  \<open>App\<close> renders \<open>FaceDetectionApp\<close> as the child of \<open>ProtectedRoute\<close>: the component
  is mounted exactly while the guard returns its children. When the guard returns
  anything else the component is unmounted and its state is gone (\<open>None\<close>); when the
  guard returns the children again a new instance starts from \<open>mount\<close>.
\<close>

definition render :: "int \<Rightarrow> auth_state \<Rightarrow> face_state option \<Rightarrow> face_state option" where
  "render now a c =
     (if ProtectedRoute a = Children
      then (case c of None \<Rightarrow> Some (mount now) | Some s \<Rightarrow> Some s)
      else None)"

section \<open>The inbound message handler\<close>

text \<open>
  The block under \<open>data.faces && data.faces.length > 0 && isMeasuring\<close>. \<open>measuring\<close>
  and \<open>reached\<close> are the values of \<open>isMeasuring\<close> and \<open>isDistanceReached\<close> in the
  handler's closure.
\<close>

definition faces_block :: "bool \<Rightarrow> bool \<Rightarrow> inbound \<Rightarrow> face_state \<Rightarrow> face_state" where
  "faces_block measuring reached d s =
     (case faces d of
        None \<Rightarrow> s
      | Some [] \<Rightarrow> s
      | Some (distance # rest) \<Rightarrow>
          if \<not> measuring then s
          else
            (let s1 = s\<lparr>currentDistance := (if distance > 0 then Metres distance else Calculating)\<rparr>
             in if truthy_bool (at_target_distance d) then
                  (let s2 = s1\<lparr>atTargetDistance := True,
                                consecutiveTargetFrames := Suc (consecutiveTargetFrames s1)\<rparr>
                   in if consecutiveTargetFrames s2 \<ge> 15 \<and> \<not> reached
                      then startCountdown
                             (s2\<lparr>isDistanceReached := True, statusMessage := TargetReached\<rparr>)
                      else s2)
                else s1\<lparr>atTargetDistance := False, consecutiveTargetFrames := 0\<rparr>))"

text \<open>
  The statements under \<open>data.success\<close> that come before the faces: processed image,
  focal length, reference box, calibration complete, face detected.
\<close>

definition success_fields :: "int \<Rightarrow> inbound \<Rightarrow> face_state \<Rightarrow> face_state" where
  "success_fields now d s =
     (let s1 = (if truthy_str (processed_image d)
                then s\<lparr>processedImage := processed_image d\<rparr> else s);
          s2 = (case focal_length d of
                  None \<Rightarrow> s1
                | Some f \<Rightarrow> if f \<noteq> 0 then s1\<lparr>focalLength := f\<rparr> else s1);
          s3 = (case reference_box d of
                  None \<Rightarrow> s2
                | Some b \<Rightarrow> s2\<lparr>referenceBox := Some b\<rparr>);
          s4 = (case message d of
                  None \<Rightarrow> s3
                | Some t \<Rightarrow>
                    if includes_str (toLowerCase t) ''calibration complete''
                    then s3\<lparr>isCalibrating := False, isCalibrated := True,
                            statusMessage := CalibrationComplete\<rparr>
                    else s3)
      in if truthy_bool (face_detected d)
         then s4\<lparr>lastFaceDetected := now, framesSinceLastFace := 0\<rparr> else s4)"

text \<open>The whole block under \<open>data.success\<close>.\<close>

definition success_block :: "bool \<Rightarrow> bool \<Rightarrow> int \<Rightarrow> inbound \<Rightarrow> face_state \<Rightarrow> face_state" where
  "success_block measuring reached now d s =
     faces_block measuring reached d (success_fields now d s)"

text \<open>The final statement of the handler, on \<open>data.message\<close>.\<close>

definition message_block :: "inbound \<Rightarrow> face_state \<Rightarrow> face_state" where
  "message_block d s =
     (case message d of
        None \<Rightarrow> s
      | Some t \<Rightarrow>
          if t \<noteq> [] \<and> \<not> includes_str t ''Authenticated successfully''
          then s\<lparr>statusMessage := Verbatim t\<rparr> else s)"

text \<open>
  \<open>ws.current.onmessage\<close>, with the two constants of its closure. The handler is
  created by the render that runs the socket effect; for as long as it stays registered
  it reads the \<open>isMeasuring\<close> and \<open>isDistanceReached\<close> of that render, whatever the
  cells hold by now. \<open>measuring\<close> and \<open>reached\<close> are those two values. \<open>Inl\<close> is an
  exception leaving the handler: both are thrown by the handler's first two statements,
  before any update.
\<close>

definition handle_message ::
  "bool \<Rightarrow> bool \<Rightarrow> int \<Rightarrow> auth_state \<times> face_state \<Rightarrow> payload
     \<Rightarrow> js_error + auth_state \<times> face_state" where
  "handle_message measuring reached now st p =
     (let a = fst st; s = snd st in
      case p of
        Unparseable \<Rightarrow> Inl SyntaxError
      | JsonNull \<Rightarrow> Inl TypeError
      | JsonOther \<Rightarrow> Inr (a, s)
      | JsonObject d \<Rightarrow>
          if truthy_str (error d) then
            (case error d of
               None \<Rightarrow> Inr (a, s)
             | Some e \<Rightarrow>
                 Inr (if includes_str e ''Authentication'' then logout a else a,
                      s\<lparr>statusMessage := ErrorPrefix e\<rparr>))
          else
            Inr (a, message_block d
                      (if truthy_bool (success d)
                       then success_block measuring reached now d s
                       else s)))"

text \<open>
  The handler on the state committed by the render that registered it: the closure
  holds that state's own \<open>isMeasuring\<close> and \<open>isDistanceReached\<close>.
\<close>

definition onmessage ::
  "int \<Rightarrow> auth_state \<times> face_state \<Rightarrow> payload \<Rightarrow> js_error + auth_state \<times> face_state" where
  "onmessage now st p =
     handle_message (isMeasuring (snd st)) (isDistanceReached (snd st)) now st p"

text \<open>
  The browser dispatching one \<open>message\<close> event to the handler: an exception thrown by
  the handler is reported to the console as uncaught and the state stays as the handler
  left it. The first component is the uncaught exception, if any.
\<close>

definition deliver ::
  "int \<Rightarrow> auth_state \<times> face_state \<Rightarrow> payload \<Rightarrow> js_error option \<times> auth_state \<times> face_state" where
  "deliver now st p =
     (case onmessage now st p of
        Inl e \<Rightarrow> (Some e, st)
      | Inr st' \<Rightarrow> (None, st'))"

text \<open>The same dispatch to a handler whose closure holds \<open>measuring\<close> and \<open>reached\<close>.\<close>

definition dispatch ::
  "bool \<Rightarrow> bool \<Rightarrow> int \<Rightarrow> auth_state \<times> face_state \<Rightarrow> payload
     \<Rightarrow> js_error option \<times> auth_state \<times> face_state" where
  "dispatch measuring reached now st p =
     (case handle_message measuring reached now st p of
        Inl e \<Rightarrow> (Some e, st)
      | Inr st' \<Rightarrow> (None, st'))"

text \<open>
  A run of inbound messages, each with the time at which it is handled, through one
  registered handler: the state moves from message to message, the constants of the
  closure stay. This is what happens to the messages that arrive before React commits
  a render in which \<open>isMeasuring\<close>, \<open>isDistanceReached\<close> or the session changed.
\<close>

fun handleAll ::
  "bool \<Rightarrow> bool \<Rightarrow> auth_state \<times> face_state \<Rightarrow> (int \<times> payload) list
     \<Rightarrow> auth_state \<times> face_state" where
  "handleAll measuring reached st [] = st"
| "handleAll measuring reached st (p # ps) =
     handleAll measuring reached (snd (dispatch measuring reached (fst p) st (snd p))) ps"

section \<open>The socket effect\<close>

text \<open>\<open>WebSocket.close()\<close>: a socket that is not yet closed starts closing.\<close>

definition ws_close :: "ready_state \<Rightarrow> ready_state" where
  "ws_close r = (case r of CLOSED \<Rightarrow> CLOSED | _ \<Rightarrow> CLOSING)"

text \<open>
  The effect with the dependencies \<open>[isMeasuring, isDistanceReached, token, logout]\<close>,
  run again by a commit in which one of them changed: its cleanup closes the socket in
  \<open>ws.current\<close>; without a token the body returns, otherwise it stores a new socket,
  still connecting, and registers on it the handlers of the new render. On a freshly
  mounted component there is no socket to close.
\<close>

definition socket_effect :: "auth_state \<Rightarrow> face_state \<Rightarrow> face_state" where
  "socket_effect a s =
     (let s1 = s\<lparr>ws := map_option ws_close (ws s)\<rparr>
      in if truthy_str (token a) then s1\<lparr>ws := Some CONNECTING\<rparr> else s1)"

text \<open>
  \<open>ws.current.onopen\<close>: the socket is open and the token, the stored one if there is
  one, is the first thing sent on it.
\<close>

definition onopen :: "auth_state \<Rightarrow> face_state \<Rightarrow> face_state" where
  "onopen a s =
     ws_send (AuthToken (if truthy_str (storedToken a) then storedToken a else token a))
       (s\<lparr>ws := Some OPEN\<rparr>)"

section \<open>Observations and classes of events\<close>

text \<open>
  The part of the state that the transition into the countdown acts on: the measuring
  and distance-reached flags, the countdown and vision-test cells, the two timer refs,
  the table of active intervals, the next timer handle, the socket, what was sent, and
  the count of vision-test activations.
\<close>

definition control ::
  "face_state \<Rightarrow> (bool \<times> bool \<times> bool \<times> int \<times> bool) \<times> (nat option \<times> nat option \<times>
     (nat \<times> timer_cb) list \<times> nat) \<times>
     (ready_state option \<times> outbound list \<times> nat)" where
  "control s =
     ((isMeasuring s, isDistanceReached s, showCountdown s, countdownValue s,
       showLandoltTest s),
      (detectionInterval s, countdownTimerRef s, timers s, nextTimer s),
      (ws s, sent s, landoltShown s))"

text \<open>
  A detection event that the handler reads as a frame with a face: no error text, the
  success flag set, and a non-empty list of faces. It is on target when it also has the
  at-target flag set, off target otherwise.
\<close>

definition face_event :: "inbound \<Rightarrow> bool" where
  "face_event d =
     (\<not> truthy_str (error d) \<and> truthy_bool (success d)
      \<and> (case faces d of None \<Rightarrow> False | Some fs \<Rightarrow> fs \<noteq> []))"

definition target_event :: "int \<times> payload \<Rightarrow> bool" where
  "target_event p =
     (case snd p of
        JsonObject d \<Rightarrow> face_event d \<and> truthy_bool (at_target_distance d)
      | _ \<Rightarrow> False)"

section \<open>Concrete inputs\<close>

text \<open>A message with no field, a logged-in session, and a connected, calibrated component.\<close>

definition blank :: inbound where
  "blank = \<lparr>error = None, success = None, processed_image = None, focal_length = None,
            reference_box = None, message = None, face_detected = None, faces = None,
            at_target_distance = None\<rparr>"

definition session :: auth_state where
  "session = \<lparr>user = Some ''ada'', token = Some ''tok'', loading = False,
              storedToken = Some ''tok''\<rparr>"

definition calibrated :: face_state where
  "calibrated = (mount 0)\<lparr>showCamera := True, isCalibrated := True, focalLength := 600,
                          ws := Some OPEN\<rparr>"

text \<open>
  A component that is measuring for the first time: the user started measuring on the
  calibrated component, the commit replaced the socket and the new socket opened. And a
  detection event with one face at 4 m on target.
\<close>

definition measuring :: face_state where
  "measuring = onopen session (socket_effect session (startMeasuringDistance calibrated))"

definition on_target :: inbound where
  "on_target = blank\<lparr>success := Some True, faces := Some [4], at_target_distance := Some True\<rparr>"

text \<open>
  A whole first measurement and the start of a second one. \<open>target_held\<close>: 15 on-target
  events with a detected face, handled at 1000 ms by the handler of the measuring
  component, have reached the target. \<open>test_closed\<close>: that state was committed, the new
  socket opened, the countdown ran its five ticks and the user closed the vision test.
  \<open>measuring_again\<close>: the user pressed Measure Again, the commit replaced the socket and
  it opened. \<open>face_seen\<close>: at 7000 ms the handler of that render got an event with a
  detected face.
\<close>

definition target_held :: face_state where
  "target_held = snd (handleAll (isMeasuring measuring) (isDistanceReached measuring)
     (session, measuring)
     (replicate 15 (1000, JsonObject (on_target\<lparr>face_detected := Some True\<rparr>))))"

definition test_closed :: face_state where
  "test_closed = closeLandoltTest (fireTimes 5 2 6000 NoWebcam
     (onopen session (socket_effect session target_held)))"

definition measuring_again :: face_state where
  "measuring_again =
     onopen session (socket_effect session (startMeasuringDistance test_closed))"

definition face_seen :: face_state where
  "face_seen = snd (snd (deliver 7000 (session, measuring_again)
     (JsonObject (blank\<lparr>success := Some True, face_detected := Some True\<rparr>))))"

section \<open>Frame lemmas of the handler's blocks\<close>

lemma measuring_state:
  "measuring = calibrated\<lparr>isMeasuring := True, detectionInterval := Some 1,
       timers := [(1, SendFrameCb False 0)], nextTimer := 2, statusMessage := MeasuringHint,
       sent := [Command ''start_distance'', AuthToken (Some ''tok'')]\<rparr>"
  by (simp add: measuring_def onopen_def socket_effect_def startMeasuringDistance_def
      setInterval_def ws_send_def connected_def ws_close_def truthy_str_def session_def
      calibrated_def mount_def Let_def)

lemma faces_block_not_measuring: "faces_block False r d s = s"
  by (simp add: faces_block_def split: option.splits list.splits)

lemma success_block_not_measuring:
  "success_block False r now d s =
     s\<lparr>processedImage := processedImage (success_block False r now d s),
       focalLength := focalLength (success_block False r now d s),
       referenceBox := referenceBox (success_block False r now d s),
       isCalibrating := isCalibrating (success_block False r now d s),
       isCalibrated := isCalibrated (success_block False r now d s),
       statusMessage := statusMessage (success_block False r now d s),
       lastFaceDetected := lastFaceDetected (success_block False r now d s),
       framesSinceLastFace := framesSinceLastFace (success_block False r now d s)\<rparr>"
  by (simp add: success_block_def success_fields_def faces_block_not_measuring Let_def
      split: option.splits)

section \<open>C2: payloads that are not JSON\<close>

text \<open>
  C2, as stated, says that the handler tolerates a malformed payload and reports the
  decode failure only as a logged decode error. The handler has no \<open>try\<close>: on a payload
  that is not JSON the \<open>SyntaxError\<close> of \<open>JSON.parse\<close> leaves the handler.
\<close>

theorem C2_handler_throws:
  "onmessage 0 (session, calibrated) Unparseable = Inl SyntaxError"
  by (simp add: onmessage_def handle_message_def)

text \<open>
  C2, amended: for every payload that is not well-formed JSON, the handler ends with an
  uncaught \<open>SyntaxError\<close> raised by its first statement; no cell of the orchestrator or
  of the session is updated, so the phase is as before, and the socket is left in the
  state it was in.
\<close>

theorem C2_unparseable_leaves_state:
  "deliver now st Unparseable = (Some SyntaxError, st)"
  by (simp add: deliver_def onmessage_def handle_message_def)

theorem C2_unparseable_leaves_state_witness:
  "deliver 0 (session, calibrated) Unparseable = (Some SyntaxError, session, calibrated)
   \<and> ws (snd (snd (deliver 0 (session, calibrated) Unparseable))) = Some OPEN"
  using C2_unparseable_leaves_state [of 0 "(session, calibrated)"]
  by (simp add: calibrated_def)

section \<open>C3: where the debounce counters are reset\<close>

text \<open>
  C3, as stated, says that the stop-measuring command resets both debounce counters.
  \<open>stopMeasuringDistance\<close> does not write either counter: stopped with a streak of 15
  target frames and 3 frames since the last face, both values are still there.
\<close>

theorem C3_stop_keeps_counters:
  "consecutiveTargetFrames (stopMeasuringDistance
      (calibrated\<lparr>isMeasuring := True, isDistanceReached := True,
                  consecutiveTargetFrames := 15, framesSinceLastFace := 3\<rparr>)) = 15
   \<and> framesSinceLastFace (stopMeasuringDistance
      (calibrated\<lparr>isMeasuring := True, isDistanceReached := True,
                  consecutiveTargetFrames := 15, framesSinceLastFace := 3\<rparr>)) = 3"
  by (simp add: stopMeasuringDistance_def calibrated_def mount_def connected_def ws_send_def)

text \<open>
  C3, amended: leaving the measuring phases does not reset the debounce counters. The
  stop-measuring command clears the measuring flag, leaves the calibrated flag as it is
  (so a calibrated orchestrator is back in Calibrated) and leaves both counters
  unchanged, and so does the transition into the countdown; both counters are reset to 0
  on the way in, by the start-measuring command.
\<close>

theorem C3_counters_reset_on_start:
  "consecutiveTargetFrames (stopMeasuringDistance s) = consecutiveTargetFrames s
   \<and> framesSinceLastFace (stopMeasuringDistance s) = framesSinceLastFace s
   \<and> \<not> isMeasuring (stopMeasuringDistance s)
   \<and> isCalibrated (stopMeasuringDistance s) = isCalibrated s
   \<and> consecutiveTargetFrames (startCountdown s) = consecutiveTargetFrames s
   \<and> framesSinceLastFace (startCountdown s) = framesSinceLastFace s
   \<and> consecutiveTargetFrames (startMeasuringDistance s) = 0
   \<and> framesSinceLastFace (startMeasuringDistance s) = 0"
  by (simp add: stopMeasuringDistance_def startCountdown_def startMeasuringDistance_def
      clearInterval_def ws_send_def setInterval_def connected_def Let_def split: option.splits)

theorem C3_counters_reset_on_start_witness:
  "consecutiveTargetFrames (startMeasuringDistance
      (calibrated\<lparr>consecutiveTargetFrames := 15, framesSinceLastFace := 3\<rparr>)) = 0
   \<and> framesSinceLastFace (startMeasuringDistance
      (calibrated\<lparr>consecutiveTargetFrames := 15, framesSinceLastFace := 3\<rparr>)) = 0
   \<and> consecutiveTargetFrames (calibrated\<lparr>consecutiveTargetFrames := 15,
        framesSinceLastFace := 3\<rparr>) = 15"
  using C3_counters_reset_on_start
    [of "calibrated\<lparr>consecutiveTargetFrames := 15, framesSinceLastFace := 3\<rparr>"]
  by simp

section \<open>C5: sending while not connected\<close>

text \<open>
  C5: while the socket is absent or not \<open>OPEN\<close>, no operation writes to it. The
  scheduler's frame, the calibration command and the capture command return the state
  as it was; the start-distance and stop commands (and the countdown start, which
  stops measuring) leave the record of sent messages as it was. The state has no queue
  of pending messages, and none of these functions has a path that throws.
\<close>

theorem C5_send_dropped_when_not_connected:
  "\<not> connected s \<Longrightarrow>
     sendFrame r l now cam s = s \<and> startCalibration s = s \<and> captureCalibration cam s = s
     \<and> sent (startMeasuringDistance s) = sent s \<and> sent (stopMeasuringDistance s) = sent s
     \<and> sent (startCountdown s) = sent s"
  by (simp add: sendFrame_def startCalibration_def captureCalibration_def
      stopMeasuringDistance_def startCountdown_def startMeasuringDistance_def
      clearInterval_def ws_send_def setInterval_def connected_def Let_def split: option.splits)

theorem C5_send_dropped_when_not_connected_witness:
  "\<not> connected (calibrated\<lparr>ws := Some CLOSED\<rparr>)
   \<and> sendFrame True 0 9000 (Webcam (Some ''jpeg'')) (calibrated\<lparr>ws := Some CLOSED\<rparr>)
       = calibrated\<lparr>ws := Some CLOSED\<rparr>
   \<and> sent (startMeasuringDistance (calibrated\<lparr>ws := Some CLOSED\<rparr>)) = []"
proof -
  have h: "\<not> connected (calibrated\<lparr>ws := Some CLOSED\<rparr>)"
    by (simp add: connected_def)
  show ?thesis
    using h C5_send_dropped_when_not_connected
      [OF h, of True 0 9000 "Webcam (Some ''jpeg'')"]
    by (simp add: calibrated_def mount_def)
qed

section \<open>C8: a detection event while idle\<close>

text \<open>
  C8, as stated, says that a detection event received while idle changes no field of the
  derived state. Only the block that reads the faces is guarded by the measuring flag:
  in a freshly mounted, idle component a successful event with a processed image and a
  detected face sets the processed image and the last-face timestamp.
\<close>

theorem C8_idle_event_updates_image:
  "\<not> isMeasuring (mount 0) \<and> \<not> isCalibrating (mount 0)
   \<and> processedImage (mount 0) = None \<and> lastFaceDetected (mount 0) = 0
   \<and> processedImage (snd (snd (deliver 7 (session, mount 0)
        (JsonObject (blank\<lparr>success := Some True, processed_image := Some ''img'',
                           face_detected := Some True\<rparr>))))) = Some ''img''
   \<and> lastFaceDetected (snd (snd (deliver 7 (session, mount 0)
        (JsonObject (blank\<lparr>success := Some True, processed_image := Some ''img'',
                           face_detected := Some True\<rparr>))))) = 7"
  by (simp add: deliver_def onmessage_def handle_message_def success_block_def success_fields_def message_block_def
      faces_block_def truthy_str_def truthy_bool_def blank_def mount_def)

text \<open>
  C8, amended: a message handled while the orchestrator is not measuring leaves the
  measurement state untouched (distance, at-target flag, distance-reached flag,
  consecutive-target-frames, countdown, timers, socket and sent messages). The fields
  it can still update are the processed image, the focal length, the reference box, the
  calibration flags, the status text, the last-face timestamp and
  frames-since-last-face.
\<close>

theorem C8_not_measuring_frame:
  assumes idle: "\<not> isMeasuring s"
    and run: "onmessage now (a, s) (JsonObject d) = Inr (a', s')"
  shows "s' = s\<lparr>processedImage := processedImage s', focalLength := focalLength s',
     referenceBox := referenceBox s', isCalibrating := isCalibrating s',
     isCalibrated := isCalibrated s', statusMessage := statusMessage s',
     lastFaceDetected := lastFaceDetected s',
     framesSinceLastFace := framesSinceLastFace s'\<rparr>"
proof (cases "truthy_str (error d)")
  case True
  with run show ?thesis
    by (auto simp: onmessage_def handle_message_def split: option.splits)
next
  case False
  define x where "x = (if truthy_bool (success d)
                       then success_block (isMeasuring s) (isDistanceReached s) now d s else s)"
  have s': "s' = message_block d x"
    using run False by (simp add: onmessage_def handle_message_def x_def)
  obtain p f b c1 c2 m l n where x: "x = s\<lparr>processedImage := p, focalLength := f,
     referenceBox := b, isCalibrating := c1, isCalibrated := c2,
     statusMessage := m, lastFaceDetected := l, framesSinceLastFace := n\<rparr>"
  proof (cases "truthy_bool (success d)")
    case True
    then have "x = success_block False (isDistanceReached s) now d s"
      using idle by (simp add: x_def)
    then show ?thesis using that success_block_not_measuring by metis
  next
    case False
    then have "x = s\<lparr>processedImage := processedImage s, focalLength := focalLength s,
     referenceBox := referenceBox s, isCalibrating := isCalibrating s,
     isCalibrated := isCalibrated s, statusMessage := statusMessage s,
     lastFaceDetected := lastFaceDetected s,
     framesSinceLastFace := framesSinceLastFace s\<rparr>" by (simp add: x_def)
    then show ?thesis using that by blast
  qed
  show ?thesis unfolding s' x
    by (simp add: message_block_def split: option.splits)
qed

theorem C8_not_measuring_frame_witness:
  "\<not> isMeasuring (mount 0)
   \<and> onmessage 7 (session, mount 0)
        (JsonObject (blank\<lparr>success := Some True, processed_image := Some ''img'',
                           face_detected := Some True\<rparr>))
       = Inr (session, (mount 0)\<lparr>processedImage := Some ''img'', lastFaceDetected := 7\<rparr>)
   \<and> currentDistance ((mount 0)\<lparr>processedImage := Some ''img'', lastFaceDetected := 7\<rparr>)
       = ZeroMetres"
proof -
  have h1: "\<not> isMeasuring (mount 0)"
    by (simp add: mount_def)
  have h2: "onmessage 7 (session, mount 0)
        (JsonObject (blank\<lparr>success := Some True, processed_image := Some ''img'',
                           face_detected := Some True\<rparr>))
       = Inr (session, (mount 0)\<lparr>processedImage := Some ''img'', lastFaceDetected := 7\<rparr>)"
    by (simp add: onmessage_def handle_message_def success_block_def success_fields_def message_block_def
        faces_block_def truthy_str_def truthy_bool_def blank_def mount_def)
  show ?thesis
    using h1 h2 C8_not_measuring_frame [OF h1 h2]
    by (simp add: mount_def)
qed

section \<open>The status text through the handler's blocks\<close>

lemma statusMessage_stopMeasuringDistance:
  "statusMessage (stopMeasuringDistance s) = statusMessage s"
  by (simp add: stopMeasuringDistance_def ws_send_def clearInterval_def Let_def
      split: option.splits)

lemma statusMessage_startCountdown:
  "statusMessage (startCountdown s) = statusMessage s"
  by (simp add: startCountdown_def setInterval_def clearInterval_def Let_def
      statusMessage_stopMeasuringDistance split: option.splits)

lemma prefix_includes_str: "prefix needle t \<Longrightarrow> includes_str t needle"
  by (cases t) auto

section \<open>C7: authentication errors\<close>

text \<open>
  C7, as stated, takes the authentication-failure pattern to be the prefix
  \<open>Authentication\<close> and every other error to be an ordinary one that only updates the
  status text. The handler tests \<open>data.error.includes('Authentication')\<close>: an error
  text that holds the word further in is not matched by the prefix and still logs the
  user out.
\<close>

theorem C7_includes_not_prefix:
  "\<not> prefix ''Authentication'' ''Invalid Authentication token''
   \<and> token session = Some ''tok''
   \<and> token (fst (snd (deliver 0 (session, calibrated)
        (JsonObject (blank\<lparr>error := Some ''Invalid Authentication token''\<rparr>))))) = None"
  by (simp add: deliver_def onmessage_def handle_message_def blank_def truthy_str_def session_def logout_def)

text \<open>
  C7, amended: for every inbound message with a non-empty error text, in any phase, the
  status text becomes the error text behind \<open>Error: \<close>. When the error text contains
  \<open>Authentication\<close> anywhere (the prefix is one such case) the handler also logs out:
  user, token and stored token are cleared, the route guard stops rendering the
  orchestrator, whose state (phase, calibration data) is thereby dropped, and the next
  time the guard renders it the orchestrator starts from its initial state: idle, focal
  length 0, no reference box. When the error text does not contain \<open>Authentication\<close>
  only the status text changes.
\<close>

theorem C7_authentication_error_logs_out:
  assumes "error d = Some e" and "e \<noteq> []"
  shows "(prefix ''Authentication'' e \<longrightarrow> includes_str e ''Authentication'')
   \<and> (includes_str e ''Authentication'' \<longrightarrow>
        onmessage now (a, s) (JsonObject d)
          = Inr (logout a, s\<lparr>statusMessage := ErrorPrefix e\<rparr>)
        \<and> user (logout a) = None \<and> token (logout a) = None \<and> storedToken (logout a) = None
        \<and> render tu (logout a) (Some (s\<lparr>statusMessage := ErrorPrefix e\<rparr>)) = None
        \<and> (ProtectedRoute b = Children \<longrightarrow>
             render tm b (render tu (logout a) (Some (s\<lparr>statusMessage := ErrorPrefix e\<rparr>)))
               = Some (mount tm))
        \<and> \<not> isCalibrating (mount tm) \<and> \<not> isCalibrated (mount tm)
        \<and> \<not> isMeasuring (mount tm) \<and> \<not> isDistanceReached (mount tm)
        \<and> \<not> showCountdown (mount tm) \<and> \<not> showLandoltTest (mount tm)
        \<and> focalLength (mount tm) = 0 \<and> referenceBox (mount tm) = None)
   \<and> (\<not> includes_str e ''Authentication'' \<longrightarrow>
        onmessage now (a, s) (JsonObject d) = Inr (a, s\<lparr>statusMessage := ErrorPrefix e\<rparr>))"
  using assms
  by (simp add: onmessage_def handle_message_def truthy_str_def logout_def render_def ProtectedRoute_def
      isAuthenticated_def prefix_includes_str mount_def)

theorem C7_authentication_error_logs_out_witness:
  "prefix ''Authentication'' ''Authentication failed''
   \<and> ProtectedRoute session = Children
   \<and> onmessage 0 (session, calibrated)
        (JsonObject (blank\<lparr>error := Some ''Authentication failed''\<rparr>))
       = Inr (logout session,
              calibrated\<lparr>statusMessage := ErrorPrefix ''Authentication failed''\<rparr>)
   \<and> render 1 (logout session)
        (Some (calibrated\<lparr>statusMessage := ErrorPrefix ''Authentication failed''\<rparr>)) = None
   \<and> render 2 session (render 1 (logout session)
        (Some (calibrated\<lparr>statusMessage := ErrorPrefix ''Authentication failed''\<rparr>)))
       = Some (mount 2)
   \<and> \<not> includes_str ''No face found'' ''Authentication''
   \<and> onmessage 0 (session, calibrated) (JsonObject (blank\<lparr>error := Some ''No face found''\<rparr>))
       = Inr (session, calibrated\<lparr>statusMessage := ErrorPrefix ''No face found''\<rparr>)"
proof -
  have p: "prefix ''Authentication'' ''Authentication failed''"
    by simp
  have g: "ProtectedRoute session = Children"
    by (simp add: ProtectedRoute_def isAuthenticated_def session_def)
  have n: "\<not> includes_str ''No face found'' ''Authentication''"
    by simp
  have e1: "error (blank\<lparr>error := Some ''Authentication failed''\<rparr>)
              = Some ''Authentication failed''"
    by simp
  have e2: "error (blank\<lparr>error := Some ''No face found''\<rparr>) = Some ''No face found''"
    by simp
  show ?thesis
    using p g n
      C7_authentication_error_logs_out
        [OF e1, where now = 0 and a = session and s = calibrated
           and tu = 1 and tm = 2 and b = session]
      C7_authentication_error_logs_out
        [OF e2, where now = 0 and a = session and s = calibrated]
    by blast
qed

section \<open>Runs of detection events\<close>

lemma control_success_fields:
  "control (success_fields now d s) = control s"
  "consecutiveTargetFrames (success_fields now d s) = consecutiveTargetFrames s"
  by (simp_all add: success_fields_def control_def Let_def split: option.splits)

lemma control_message_block:
  "control (message_block d s) = control s"
  "consecutiveTargetFrames (message_block d s) = consecutiveTargetFrames s"
  by (simp_all add: message_block_def control_def split: option.splits)

lemma control_startCountdown:
  "control (startCountdown s) =
     ((False, isDistanceReached s, True, 5, showLandoltTest s),
      (None, Some (nextTimer s),
       filter (\<lambda>p. Some (fst p) \<noteq> detectionInterval s \<and> Some (fst p) \<noteq> countdownTimerRef s)
         (timers s) @ [(nextTimer s, CountdownCb)],
       Suc (nextTimer s)),
      (ws s, sent s @ (if connected s then [Command ''stop_all''] else []), landoltShown s))"
  by (auto simp add: startCountdown_def stopMeasuringDistance_def control_def setInterval_def
      clearInterval_def ws_send_def connected_def Let_def split: option.splits intro: filter_cong)

lemma consecutiveTargetFrames_startCountdown:
  "consecutiveTargetFrames (startCountdown s) = consecutiveTargetFrames s"
  by (simp add: startCountdown_def stopMeasuringDistance_def setInterval_def
      clearInterval_def ws_send_def Let_def split: option.splits)

lemma faces_block_on_target_below:
  assumes "faces d = Some (f # fs)" and "truthy_bool (at_target_distance d)"
    and "Suc (consecutiveTargetFrames x) < 15 \<or> r"
  shows "control (faces_block True r d x) = control x"
    and "consecutiveTargetFrames (faces_block True r d x) = Suc (consecutiveTargetFrames x)"
  using assms by (auto simp add: faces_block_def control_def Let_def)

lemma faces_block_off_target:
  assumes "faces d = Some (f # fs)" and "\<not> truthy_bool (at_target_distance d)"
  shows "control (faces_block True r d x) = control x"
    and "consecutiveTargetFrames (faces_block True r d x) = 0"
  using assms by (auto simp add: faces_block_def control_def Let_def)

lemma faces_block_on_target_fire:
  assumes "faces d = Some (f # fs)" and "truthy_bool (at_target_distance d)"
    and "Suc (consecutiveTargetFrames x) \<ge> 15"
  shows "control (faces_block True False d x) =
     ((False, True, True, 5, showLandoltTest x),
      (None, Some (nextTimer x),
       filter (\<lambda>p. Some (fst p) \<noteq> detectionInterval x \<and> Some (fst p) \<noteq> countdownTimerRef x)
         (timers x) @ [(nextTimer x, CountdownCb)],
       Suc (nextTimer x)),
      (ws x, sent x @ (if connected x then [Command ''stop_all''] else []), landoltShown x))"
    and "consecutiveTargetFrames (faces_block True False d x) = Suc (consecutiveTargetFrames x)"
  using assms
  by (simp_all add: faces_block_def Let_def control_startCountdown
      consecutiveTargetFrames_startCountdown connected_def)


lemma connected_success_fields: "connected (success_fields now d s) = connected s"
  by (simp add: success_fields_def connected_def Let_def split: option.splits)

lemma target_eventE:
  assumes "target_event (now, p)"
  obtains d f fs where "p = JsonObject d" and "\<not> truthy_str (error d)"
    and "truthy_bool (success d)" and "faces d = Some (f # fs)"
    and "truthy_bool (at_target_distance d)"
  using assms
  by (auto simp: target_event_def face_event_def neq_Nil_conv
      split: payload.splits option.splits)

lemma dispatch_target_below:
  assumes "target_event (now, p)"
    and "Suc (consecutiveTargetFrames s) < 15 \<or> r"
  shows "\<exists>s'. dispatch True r now (a, s) p = (None, a, s') \<and> control s' = control s
     \<and> consecutiveTargetFrames s' = Suc (consecutiveTargetFrames s)"
proof -
  from assms(1) obtain d f fs where p: "p = JsonObject d" and e: "\<not> truthy_str (error d)"
    and su: "truthy_bool (success d)" and fa: "faces d = Some (f # fs)"
    and at: "truthy_bool (at_target_distance d)"
    by (rule target_eventE)
  let ?x = "success_fields now d s"
  have b: "Suc (consecutiveTargetFrames ?x) < 15 \<or> r"
    using assms(2) by (simp add: control_success_fields)
  have d: "dispatch True r now (a, s) p
      = (None, a, message_block d (faces_block True r d ?x))"
    using p e su by (simp add: dispatch_def handle_message_def success_block_def)
  show ?thesis
    unfolding d
    using faces_block_on_target_below [OF fa at b]
    by (simp add: control_message_block control_success_fields)
qed

lemma dispatch_target_fire:
  assumes "target_event (now, p)" and "Suc (consecutiveTargetFrames s) \<ge> 15"
  shows "\<exists>s'. dispatch True False now (a, s) p = (None, a, s')
     \<and> control s' =
         ((False, True, True, 5, showLandoltTest s),
          (None, Some (nextTimer s),
           filter (\<lambda>p. Some (fst p) \<noteq> detectionInterval s \<and> Some (fst p) \<noteq> countdownTimerRef s)
             (timers s) @ [(nextTimer s, CountdownCb)],
           Suc (nextTimer s)),
          (ws s, sent s @ (if connected s then [Command ''stop_all''] else []), landoltShown s))
     \<and> consecutiveTargetFrames s' = Suc (consecutiveTargetFrames s)"
proof -
  from assms(1) obtain d f fs where p: "p = JsonObject d" and e: "\<not> truthy_str (error d)"
    and su: "truthy_bool (success d)" and fa: "faces d = Some (f # fs)"
    and at: "truthy_bool (at_target_distance d)"
    by (rule target_eventE)
  let ?x = "success_fields now d s"
  have b: "Suc (consecutiveTargetFrames ?x) \<ge> 15"
    using assms(2) by (simp add: control_success_fields)
  have c: "control ?x = control s"
    by (rule control_success_fields)
  have d: "dispatch True False now (a, s) p
      = (None, a, message_block d (faces_block True False d ?x))"
    using p e su by (simp add: dispatch_def handle_message_def success_block_def)
  have eqs: "showLandoltTest ?x = showLandoltTest s" "nextTimer ?x = nextTimer s"
    "detectionInterval ?x = detectionInterval s" "countdownTimerRef ?x = countdownTimerRef s"
    "timers ?x = timers s" "sent ?x = sent s" "landoltShown ?x = landoltShown s"
    "ws ?x = ws s"
    using c by (simp_all add: control_def)
  show ?thesis
    unfolding d
    using faces_block_on_target_fire [OF fa at b]
    by (simp add: control_message_block control_success_fields(2) connected_success_fields eqs)
qed

lemma dispatch_not_measuring:
  "control (snd (snd (dispatch False r now (a, s) p))) = control s
     \<and> consecutiveTargetFrames (snd (snd (dispatch False r now (a, s) p)))
         = consecutiveTargetFrames s"
proof (cases p)
  case (JsonObject d)
  show ?thesis
  proof (cases "truthy_str (error d)")
    case True
    then show ?thesis using JsonObject
      by (auto simp: dispatch_def handle_message_def control_def split: option.splits)
  next
    case False
    then show ?thesis using JsonObject
      by (simp add: dispatch_def handle_message_def success_block_def
          faces_block_not_measuring control_message_block control_success_fields)
  qed
qed (simp_all add: dispatch_def handle_message_def)

lemma run_target_below:
  assumes "\<forall>p\<in>set ps. target_event p"
    and "consecutiveTargetFrames s + length ps < 15 \<or> r"
  shows "\<exists>s'. handleAll True r (a, s) ps = (a, s') \<and> control s' = control s
     \<and> consecutiveTargetFrames s' = consecutiveTargetFrames s + length ps"
  using assms
proof (induction ps arbitrary: s)
  case Nil
  then show ?case by simp
next
  case (Cons p ps)
  have te: "target_event (fst p, snd p)" using Cons.prems(1) by simp
  have "Suc (consecutiveTargetFrames s) < 15 \<or> r"
    using Cons.prems(2) by auto
  from dispatch_target_below [OF te this, of a]
  obtain s1 where d: "dispatch True r (fst p) (a, s) (snd p) = (None, a, s1)"
    and c: "control s1 = control s"
    and n: "consecutiveTargetFrames s1 = Suc (consecutiveTargetFrames s)"
    by blast
  have "\<exists>s'. handleAll True r (a, s1) ps = (a, s') \<and> control s' = control s1
     \<and> consecutiveTargetFrames s' = consecutiveTargetFrames s1 + length ps"
    using Cons.prems n by (intro Cons.IH) auto
  then show ?case using d c n by auto
qed

lemma run_not_measuring:
  "control (snd (handleAll False r (a, s) ps)) = control s
     \<and> consecutiveTargetFrames (snd (handleAll False r (a, s) ps)) = consecutiveTargetFrames s"
proof (induction ps arbitrary: a s)
  case Nil
  then show ?case by simp
next
  case (Cons p ps)
  obtain e a1 s1 where d: "dispatch False r (fst p) (a, s) (snd p) = (e, a1, s1)"
    by (metis prod_cases3)
  have c: "control s1 = control s"
    and n: "consecutiveTargetFrames s1 = consecutiveTargetFrames s"
    using dispatch_not_measuring [of r "fst p" a s "snd p"] d by simp_all
  from Cons.IH [of a1 s1] show ?case using d c n by simp
qed

lemma handleAll_append:
  "handleAll m r st (ps @ qs) = handleAll m r (handleAll m r st ps) qs"
  by (induction ps arbitrary: st) simp_all

lemma dispatch_off_target:
  assumes "face_event d" and "\<not> truthy_bool (at_target_distance d)"
  shows "\<exists>s'. dispatch True r now (a, s) (JsonObject d) = (None, a, s') \<and> control s' = control s
     \<and> consecutiveTargetFrames s' = 0"
proof -
  from assms(1) obtain f fs where e: "\<not> truthy_str (error d)"
    and su: "truthy_bool (success d)" and fa: "faces d = Some (f # fs)"
    by (auto simp: face_event_def neq_Nil_conv split: option.splits)
  have d: "dispatch True r now (a, s) (JsonObject d)
      = (None, a, message_block d (faces_block True r d (success_fields now d s)))"
    using e su by (simp add: dispatch_def handle_message_def success_block_def)
  show ?thesis
    unfolding d
    using faces_block_off_target [OF fa assms(2)]
    by (simp add: control_message_block control_success_fields)
qed

lemma dispatch_no_face_event:
  assumes "\<not> face_event d"
  shows "consecutiveTargetFrames (snd (snd (dispatch m r now (a, s) (JsonObject d))))
           = consecutiveTargetFrames s"
proof (cases "truthy_str (error d)")
  case True
  then show ?thesis
    by (auto simp: dispatch_def handle_message_def split: option.splits)
next
  case False
  show ?thesis
  proof (cases "truthy_bool (success d)")
    case False
    then show ?thesis using \<open>\<not> truthy_str (error d)\<close>
      by (simp add: dispatch_def handle_message_def control_message_block)
  next
    case True
    then have "faces d = None \<or> faces d = Some []"
      using assms \<open>\<not> truthy_str (error d)\<close>
      by (auto simp: face_event_def split: option.splits)
    then have "faces_block m r d x = x" for x
      by (auto simp: faces_block_def)
    then show ?thesis using True \<open>\<not> truthy_str (error d)\<close>
      by (simp add: dispatch_def handle_message_def success_block_def control_message_block
          control_success_fields)
  qed
qed

lemma handleAll_replicate_fixed:
  assumes "snd (dispatch m r t st p) = st"
  shows "handleAll m r st (replicate n (t, p)) = st"
  using assms by (induction n) simp_all

lemma socket_effect_ws:
  "socket_effect a s =
     s\<lparr>ws := (if truthy_str (token a) then Some CONNECTING else map_option ws_close (ws s))\<rparr>"
  by (simp add: socket_effect_def Let_def)

section \<open>C1: the transition into the countdown\<close>

text \<open>
  C1, as stated, lets any 15 consecutive events with the at-target flag fire the
  transition, and lets no later at-target event fire it again. The handler reads the
  flag only under \<open>data.success\<close> and \<open>data.faces.length > 0\<close>: 15 successful
  at-target events without a face list leave the measuring component exactly as it
  was. And the guard \<open>!isDistanceReached\<close> reads the constant of the handler's closure:
  a 16th on-target event that reaches the same handler, before React has committed the
  new state, runs the transition a second time (streak 16, \<open>stop_all\<close> sent twice).
\<close>

theorem C1_faceless_events_do_not_fire:
  "isMeasuring measuring \<and> \<not> isDistanceReached measuring
   \<and> consecutiveTargetFrames measuring = 0
   \<and> handleAll (isMeasuring measuring) (isDistanceReached measuring) (session, measuring)
        (replicate 15 (0, JsonObject (blank\<lparr>success := Some True,
                                              at_target_distance := Some True\<rparr>)))
       = (session, measuring)
   \<and> sent (snd (handleAll (isMeasuring measuring) (isDistanceReached measuring)
        (session, measuring) (replicate 16 (0, JsonObject on_target))))
       = [Command ''start_distance'', AuthToken (Some ''tok''),
          Command ''stop_all'', Command ''stop_all'']
   \<and> consecutiveTargetFrames (snd (handleAll (isMeasuring measuring)
        (isDistanceReached measuring) (session, measuring)
        (replicate 16 (0, JsonObject on_target)))) = 16"
proof -
  have "snd (dispatch True False 0 (session, measuring)
          (JsonObject (blank\<lparr>success := Some True, at_target_distance := Some True\<rparr>)))
        = (session, measuring)"
    by (simp add: dispatch_def handle_message_def success_block_def success_fields_def
        faces_block_def message_block_def blank_def truthy_str_def truthy_bool_def)
  from handleAll_replicate_fixed [OF this, of 15]
  have faceless: "handleAll True False (session, measuring)
        (replicate 15 (0, JsonObject (blank\<lparr>success := Some True,
                                              at_target_distance := Some True\<rparr>)))
       = (session, measuring)" .
  have flags: "isMeasuring measuring" "\<not> isDistanceReached measuring"
    "consecutiveTargetFrames measuring = 0"
    by (simp_all add: measuring_state calibrated_def mount_def)
  have twice: "sent (snd (handleAll True False (session, measuring)
          (replicate 16 (0, JsonObject on_target))))
       = [Command ''start_distance'', AuthToken (Some ''tok''),
          Command ''stop_all'', Command ''stop_all'']
     \<and> consecutiveTargetFrames (snd (handleAll True False (session, measuring)
          (replicate 16 (0, JsonObject on_target)))) = 16"
    by (simp add: eval_nat_numeral measuring_state calibrated_def mount_def
        dispatch_def handle_message_def success_block_def success_fields_def
        faces_block_def message_block_def blank_def on_target_def truthy_str_def
        truthy_bool_def startCountdown_def stopMeasuringDistance_def connected_def
        ws_send_def clearInterval_def setInterval_def Let_def)
  show ?thesis
    using faceless twice by (simp only: flags simp_thms)
qed

text \<open>
  C1, amended: start in Measuring (measuring flag set, distance-reached clear, streak 0)
  with the message handler registered by that render, and let 15 detection events
  arrive, each with the success flag, no error text, a non-empty face list and the
  at-target flag. After each of the first 14 nothing of the transition has happened:
  the control state is as at the start. The 15th, which makes the streak exactly 15,
  sets distance-reached, drops the measuring flag, clears the scheduler's interval (and
  sends \<open>stop_all\<close> once when connected), shows the countdown at 5 and registers one
  countdown interval. Once React has committed that state, which re-runs the socket
  effect (the socket is replaced, the new handler sees the measuring flag clear),
  whatever messages follow leave the control state as it is: no second interval, no
  second \<open>stop_all\<close>.
\<close>

theorem C1_target_reached_on_15th:
  assumes m: "isMeasuring s" and r: "\<not> isDistanceReached s"
    and z: "consecutiveTargetFrames s = 0"
    and len: "length ps = 15" and tp: "\<forall>p\<in>set ps. target_event p"
  shows "(\<forall>n<15. control (snd (handleAll (isMeasuring s) (isDistanceReached s) (a, s)
                 (take n ps))) = control s)
    \<and> (\<exists>s'. handleAll (isMeasuring s) (isDistanceReached s) (a, s) ps = (a, s')
          \<and> consecutiveTargetFrames s' = 15
          \<and> control s' =
              ((False, True, True, 5, showLandoltTest s),
               (None, Some (nextTimer s),
                filter (\<lambda>p. Some (fst p) \<noteq> detectionInterval s
                             \<and> Some (fst p) \<noteq> countdownTimerRef s) (timers s)
                  @ [(nextTimer s, CountdownCb)],
                Suc (nextTimer s)),
               (ws s, sent s @ (if connected s then [Command ''stop_all''] else []), landoltShown s))
          \<and> socket_effect a s' =
              s'\<lparr>ws := (if truthy_str (token a) then Some CONNECTING
                         else map_option ws_close (ws s))\<rparr>
          \<and> control (snd (handleAll (isMeasuring (socket_effect a s'))
                (isDistanceReached (socket_effect a s')) (a, socket_effect a s') qs))
              = control (socket_effect a s'))"
proof (intro conjI allI impI)
  fix n :: nat assume n: "n < 15"
  have "\<forall>p\<in>set (take n ps). target_event p"
    using tp by (meson in_set_takeD)
  moreover have "consecutiveTargetFrames s + length (take n ps) < 15 \<or> False"
    using z n len by simp
  ultimately show "control (snd (handleAll (isMeasuring s) (isDistanceReached s) (a, s)
                 (take n ps))) = control s"
    using run_target_below [of "take n ps" s False a] m r by auto
next
  have split: "ps = take 14 ps @ [ps ! 14]"
    using len by (metis Suc_eq_plus1 add.commute take_Suc_conv_app_nth id_take_nth_drop
        lessI numeral_plus_one semiring_norm(5) semiring_norm(8) take_all_iff order_refl)
  have t14: "\<forall>p\<in>set (take 14 ps). target_event p"
    using tp by (meson in_set_takeD)
  have "consecutiveTargetFrames s + length (take 14 ps) < 15 \<or> False"
    using z len by simp
  from run_target_below [OF t14 this, of a]
  obtain s14 where d14: "handleAll True False (a, s) (take 14 ps) = (a, s14)"
    and c14: "control s14 = control s" and n14: "consecutiveTargetFrames s14 = 14"
    using z len by auto
  have eqs: "showLandoltTest s14 = showLandoltTest s" "nextTimer s14 = nextTimer s"
    "detectionInterval s14 = detectionInterval s" "countdownTimerRef s14 = countdownTimerRef s"
    "timers s14 = timers s" "sent s14 = sent s" "landoltShown s14 = landoltShown s"
    "connected s14 = connected s" "ws s14 = ws s"
    using c14 by (simp_all add: control_def connected_def)
  have "ps ! 14 \<in> set ps" using len by simp
  then have te: "target_event (fst (ps ! 14), snd (ps ! 14))" using tp by simp
  have "Suc (consecutiveTargetFrames s14) \<ge> 15" using n14 by simp
  from dispatch_target_fire [OF te this, of a]
  obtain s15 where d15: "dispatch True False (fst (ps ! 14)) (a, s14) (snd (ps ! 14)) = (None, a, s15)"
    and c15: "control s15 =
              ((False, True, True, 5, showLandoltTest s),
               (None, Some (nextTimer s),
                filter (\<lambda>p. Some (fst p) \<noteq> detectionInterval s
                             \<and> Some (fst p) \<noteq> countdownTimerRef s) (timers s)
                  @ [(nextTimer s, CountdownCb)],
                Suc (nextTimer s)),
               (ws s, sent s @ (if connected s then [Command ''stop_all''] else []), landoltShown s))"
    and n15: "consecutiveTargetFrames s15 = 15"
    unfolding eqs n14 by auto
  have all: "handleAll True False (a, s) ps = (a, s15)"
    by (subst split) (simp add: handleAll_append d14 d15)
  have w15: "ws s15 = ws s" using c15 by (simp add: control_def)
  have se: "socket_effect a s15 =
              s15\<lparr>ws := (if truthy_str (token a) then Some CONNECTING
                         else map_option ws_close (ws s))\<rparr>"
    by (simp add: socket_effect_ws w15)
  have nm: "isMeasuring (socket_effect a s15) = False"
    using c15 by (simp add: socket_effect_ws control_def)
  have after: "control (snd (handleAll (isMeasuring (socket_effect a s15))
                (isDistanceReached (socket_effect a s15)) (a, socket_effect a s15) qs))
              = control (socket_effect a s15)"
    unfolding nm using run_not_measuring by blast
  show "\<exists>s'. handleAll (isMeasuring s) (isDistanceReached s) (a, s) ps = (a, s')
          \<and> consecutiveTargetFrames s' = 15
          \<and> control s' =
              ((False, True, True, 5, showLandoltTest s),
               (None, Some (nextTimer s),
                filter (\<lambda>p. Some (fst p) \<noteq> detectionInterval s
                             \<and> Some (fst p) \<noteq> countdownTimerRef s) (timers s)
                  @ [(nextTimer s, CountdownCb)],
                Suc (nextTimer s)),
               (ws s, sent s @ (if connected s then [Command ''stop_all''] else []), landoltShown s))
          \<and> socket_effect a s' =
              s'\<lparr>ws := (if truthy_str (token a) then Some CONNECTING
                         else map_option ws_close (ws s))\<rparr>
          \<and> control (snd (handleAll (isMeasuring (socket_effect a s'))
                (isDistanceReached (socket_effect a s')) (a, socket_effect a s') qs))
              = control (socket_effect a s')"
    using all c15 n15 se after m r by auto
qed

theorem C1_target_reached_on_15th_witness:
  "isMeasuring measuring \<and> \<not> isDistanceReached measuring
   \<and> consecutiveTargetFrames measuring = 0
   \<and> target_event (0, JsonObject on_target)
   \<and> control (snd (handleAll (isMeasuring measuring) (isDistanceReached measuring)
        (session, measuring) (take 14 (replicate 15 (0, JsonObject on_target)))))
       = control measuring
   \<and> (\<exists>s'. handleAll (isMeasuring measuring) (isDistanceReached measuring)
              (session, measuring) (replicate 15 (0, JsonObject on_target))
            = (session, s')
          \<and> consecutiveTargetFrames s' = 15
          \<and> control s' =
              ((False, True, True, 5, False),
               (None, Some 2, [(2, CountdownCb)], 3),
               (Some OPEN,
                [Command ''start_distance'', AuthToken (Some ''tok''), Command ''stop_all''],
                0))
          \<and> ws (socket_effect session s') = Some CONNECTING
          \<and> control (snd (handleAll (isMeasuring (socket_effect session s'))
                (isDistanceReached (socket_effect session s'))
                (session, socket_effect session s') [(0, JsonObject on_target)]))
              = control (socket_effect session s'))"
proof -
  have h: "isMeasuring measuring" "\<not> isDistanceReached measuring"
    "consecutiveTargetFrames measuring = 0"
    by (simp_all add: measuring_state calibrated_def mount_def)
  have t: "target_event (0, JsonObject on_target)"
    by (simp add: target_event_def face_event_def on_target_def blank_def
        truthy_str_def truthy_bool_def)
  have l: "length (replicate 15 (0::int, JsonObject on_target)) = 15"
    by simp
  have tp: "\<forall>p\<in>set (replicate 15 (0::int, JsonObject on_target)). target_event p"
    using t by simp
  have v: "showLandoltTest measuring = False" "nextTimer measuring = 2"
    "detectionInterval measuring = Some 1" "countdownTimerRef measuring = None"
    "timers measuring = [(1, SendFrameCb False 0)]" "ws measuring = Some OPEN"
    "sent measuring = [Command ''start_distance'', AuthToken (Some ''tok'')]"
    "landoltShown measuring = 0" "connected measuring" "truthy_str (token session)"
    by (simp_all add: measuring_state calibrated_def mount_def connected_def
        truthy_str_def session_def)
  have n: "(14::nat) < 15"
    by simp
  note c = C1_target_reached_on_15th
    [OF h l tp, where a = session and qs = "[(0, JsonObject on_target)]"]
  have c1: "control (snd (handleAll (isMeasuring measuring) (isDistanceReached measuring)
        (session, measuring) (take 14 (replicate 15 (0, JsonObject on_target)))))
       = control measuring"
    using c n by blast
  from c obtain s' where s':
    "handleAll (isMeasuring measuring) (isDistanceReached measuring)
       (session, measuring) (replicate 15 (0, JsonObject on_target)) = (session, s')"
    "consecutiveTargetFrames s' = 15"
    "control s' =
       ((False, True, True, 5, False),
        (None, Some 2, [(2, CountdownCb)], 3),
        (Some OPEN,
         [Command ''start_distance'', AuthToken (Some ''tok''), Command ''stop_all''], 0))"
    "socket_effect session s' = s'\<lparr>ws := Some CONNECTING\<rparr>"
    "control (snd (handleAll (isMeasuring (socket_effect session s'))
        (isDistanceReached (socket_effect session s'))
        (session, socket_effect session s') [(0, JsonObject on_target)]))
      = control (socket_effect session s')"
    by (auto simp: v)
  have "ws (socket_effect session s') = Some CONNECTING"
    by (simp add: s'(4))
  then show ?thesis
    using h t c1 s' by blast
qed

section \<open>C4: the streak of on-target frames\<close>

text \<open>
  C4, as stated, says that every detection event handled while Measuring or TargetHeld
  moves the streak: up by one with the at-target flag, back to 0 without it. The
  handler touches the streak only under \<open>data.success\<close> and
  \<open>data.faces.length > 0 && isMeasuring\<close>. While measuring, a frame with an empty face
  list and no at-target flag leaves a streak of 14 at 14, so that a single on-target
  frame after it reaches the target; and an on-target event with a face but without
  the success flag leaves the streak at 14 as well.
\<close>

theorem C4_no_face_keeps_streak:
  "isMeasuring (measuring\<lparr>consecutiveTargetFrames := 14\<rparr>)
   \<and> \<not> isDistanceReached (measuring\<lparr>consecutiveTargetFrames := 14\<rparr>)
   \<and> consecutiveTargetFrames (snd (snd (deliver 0
        (session, measuring\<lparr>consecutiveTargetFrames := 14\<rparr>)
        (JsonObject (blank\<lparr>success := Some True, face_detected := Some False,
                           faces := Some [], at_target_distance := Some False\<rparr>))))) = 14
   \<and> isDistanceReached (snd (handleAll True False
        (session, measuring\<lparr>consecutiveTargetFrames := 14\<rparr>)
        [(0, JsonObject (blank\<lparr>success := Some True, face_detected := Some False,
                           faces := Some [], at_target_distance := Some False\<rparr>)),
         (0, JsonObject on_target)]))
   \<and> consecutiveTargetFrames (snd (snd (deliver 0
        (session, measuring\<lparr>consecutiveTargetFrames := 14\<rparr>)
        (JsonObject (blank\<lparr>faces := Some [4], at_target_distance := Some True\<rparr>))))) = 14"
  by (simp add: deliver_def onmessage_def dispatch_def handle_message_def success_block_def
      success_fields_def faces_block_def message_block_def blank_def on_target_def
      measuring_state calibrated_def mount_def truthy_str_def truthy_bool_def
      startCountdown_def stopMeasuringDistance_def connected_def ws_send_def
      clearInterval_def setInterval_def Let_def)

text \<open>
  C4, amended: for every detection event that carries the success flag, no error text
  and a non-empty face list, handled by a message handler registered while the
  measuring flag was set (which is the handler in place whenever the committed state
  is measuring), consecutive-target-frames goes up by exactly one when the at-target
  flag is set and is reset to 0 otherwise. In particular, from a streak of 0, 14
  on-target events, one off-target event with a face and 14 more on-target events end
  with a streak of 14 and no transition. Any message handled by a handler registered
  while the measuring flag was clear, and any message that lacks the success flag or
  the face list or carries an error text, leaves the streak as it is.
\<close>

theorem C4_streak_step:
  assumes f: "face_event d"
  shows "(\<exists>s'. dispatch True r now (a, s) (JsonObject d) = (None, a, s')
           \<and> consecutiveTargetFrames s' =
               (if truthy_bool (at_target_distance d) then Suc (consecutiveTargetFrames s) else 0))
    \<and> (isMeasuring s \<longrightarrow>
         deliver now (a, s) (JsonObject d)
           = dispatch True (isDistanceReached s) now (a, s) (JsonObject d))
    \<and> (\<forall>ps qs. length ps = 14 \<and> length qs = 14 \<and> (\<forall>p\<in>set ps \<union> set qs. target_event p)
           \<and> \<not> truthy_bool (at_target_distance d) \<and> consecutiveTargetFrames s = 0 \<longrightarrow>
         (\<exists>s'. handleAll True False (a, s) (ps @ [(now, JsonObject d)] @ qs) = (a, s')
             \<and> control s' = control s \<and> consecutiveTargetFrames s' = 14))
    \<and> consecutiveTargetFrames (snd (snd (dispatch False r now (a, s0) p0)))
         = consecutiveTargetFrames s0
    \<and> (\<not> face_event d0 \<longrightarrow>
         consecutiveTargetFrames (snd (snd (dispatch m r now (a, s0) (JsonObject d0))))
           = consecutiveTargetFrames s0)"
proof (intro conjI allI impI)
  show "\<exists>s'. dispatch True r now (a, s) (JsonObject d) = (None, a, s')
           \<and> consecutiveTargetFrames s' =
               (if truthy_bool (at_target_distance d) then Suc (consecutiveTargetFrames s) else 0)"
  proof (cases "truthy_bool (at_target_distance d)")
    case False
    then show ?thesis using dispatch_off_target [OF f False, of r now a s] by auto
  next
    case True
    then have te: "target_event (now, JsonObject d)"
      using f by (simp add: target_event_def)
    show ?thesis
    proof (cases "Suc (consecutiveTargetFrames s) < 15 \<or> r")
      case True
      from dispatch_target_below [OF te True, of a] \<open>truthy_bool (at_target_distance d)\<close>
      show ?thesis by auto
    next
      case False
      then have r: "\<not> r" and n: "Suc (consecutiveTargetFrames s) \<ge> 15"
        by simp_all
      from dispatch_target_fire [OF te n, of a] r \<open>truthy_bool (at_target_distance d)\<close>
      show ?thesis by auto
    qed
  qed
next
  assume "isMeasuring s"
  then show "deliver now (a, s) (JsonObject d)
      = dispatch True (isDistanceReached s) now (a, s) (JsonObject d)"
    by (simp add: deliver_def dispatch_def onmessage_def)
next
  fix ps qs
  assume h: "length ps = 14 \<and> length qs = 14 \<and> (\<forall>p\<in>set ps \<union> set qs. target_event p)
           \<and> \<not> truthy_bool (at_target_distance d) \<and> consecutiveTargetFrames s = 0"
  then have tp: "\<forall>p\<in>set ps. target_event p"
    and tq: "\<forall>p\<in>set qs. target_event p" and off: "\<not> truthy_bool (at_target_distance d)"
    by auto
  have "consecutiveTargetFrames s + length ps < 15 \<or> False" using h by simp
  from run_target_below [OF tp this, of a]
  obtain s1 where d1: "handleAll True False (a, s) ps = (a, s1)" and c1: "control s1 = control s"
    by auto
  from dispatch_off_target [OF f off, of False now a s1]
  obtain s2 where d2: "dispatch True False now (a, s1) (JsonObject d) = (None, a, s2)"
    and c2: "control s2 = control s1" and n2: "consecutiveTargetFrames s2 = 0"
    by auto
  have "consecutiveTargetFrames s2 + length qs < 15 \<or> False" using h n2 by simp
  from run_target_below [OF tq this, of a]
  obtain s3 where d3: "handleAll True False (a, s2) qs = (a, s3)" and c3: "control s3 = control s2"
    and n3: "consecutiveTargetFrames s3 = consecutiveTargetFrames s2 + length qs"
    by auto
  have "handleAll True False (a, s) (ps @ [(now, JsonObject d)] @ qs) = (a, s3)"
    by (simp add: handleAll_append d1 d2 d3)
  then show "\<exists>s'. handleAll True False (a, s) (ps @ [(now, JsonObject d)] @ qs) = (a, s')
             \<and> control s' = control s \<and> consecutiveTargetFrames s' = 14"
    using c1 c2 c3 n2 n3 h by simp
next
  show "consecutiveTargetFrames (snd (snd (dispatch False r now (a, s0) p0)))
               = consecutiveTargetFrames s0"
    using dispatch_not_measuring by blast
next
  assume "\<not> face_event d0"
  then show "consecutiveTargetFrames (snd (snd (dispatch m r now (a, s0) (JsonObject d0))))
               = consecutiveTargetFrames s0"
    by (rule dispatch_no_face_event)
qed

theorem C4_streak_step_witness:
  "isMeasuring measuring \<and> face_event on_target
   \<and> face_event (on_target\<lparr>at_target_distance := Some False\<rparr>)
   \<and> (\<exists>s'. deliver 0 (session, measuring) (JsonObject on_target) = (None, session, s')
          \<and> consecutiveTargetFrames s' = 1)
   \<and> (\<exists>s'. deliver 0 (session, measuring)
              (JsonObject (on_target\<lparr>at_target_distance := Some False\<rparr>))
            = (None, session, s')
          \<and> consecutiveTargetFrames s' = 0)
   \<and> (\<exists>s'. handleAll True False (session, measuring)
              (replicate 14 (0, JsonObject on_target)
               @ [(0, JsonObject (on_target\<lparr>at_target_distance := Some False\<rparr>))]
               @ replicate 14 (0, JsonObject on_target))
            = (session, s')
          \<and> control s' = control measuring \<and> consecutiveTargetFrames s' = 14)"
proof -
  have m: "isMeasuring measuring" and r: "isDistanceReached measuring = False"
    and z: "consecutiveTargetFrames measuring = 0"
    by (simp_all add: measuring_state calibrated_def mount_def)
  have f1: "face_event on_target"
    and f0: "face_event (on_target\<lparr>at_target_distance := Some False\<rparr>)"
    by (simp_all add: face_event_def on_target_def blank_def truthy_str_def truthy_bool_def)
  have a1: "truthy_bool (at_target_distance on_target)"
    and a0: "\<not> truthy_bool (at_target_distance (on_target\<lparr>at_target_distance := Some False\<rparr>))"
    by (simp_all add: on_target_def truthy_bool_def)
  have t: "target_event (0, JsonObject on_target)"
    using f1 a1 by (simp add: target_event_def)
  have l: "length (replicate 14 (0::int, JsonObject on_target)) = 14"
    by simp
  have tp: "\<forall>p\<in>set (replicate 14 (0::int, JsonObject on_target))
                \<union> set (replicate 14 (0::int, JsonObject on_target)). target_event p"
    using t by simp
  note on = C4_streak_step
    [OF f1, where now = 0 and a = session and s = measuring and r = False]
  note off = C4_streak_step
    [OF f0, where now = 0 and a = session and s = measuring and r = False]
  have step1: "\<exists>s'. deliver 0 (session, measuring) (JsonObject on_target) = (None, session, s')
          \<and> consecutiveTargetFrames s' = 1"
    using on a1 z m r by simp
  have step0: "\<exists>s'. deliver 0 (session, measuring)
              (JsonObject (on_target\<lparr>at_target_distance := Some False\<rparr>))
            = (None, session, s')
          \<and> consecutiveTargetFrames s' = 0"
    using off a0 m r by simp
  have run: "\<exists>s'. handleAll True False (session, measuring)
              (replicate 14 (0, JsonObject on_target)
               @ [(0, JsonObject (on_target\<lparr>at_target_distance := Some False\<rparr>))]
               @ replicate 14 (0, JsonObject on_target))
            = (session, s')
          \<and> control s' = control measuring \<and> consecutiveTargetFrames s' = 14"
    using off l tp a0 z by blast
  show ?thesis
    using m f1 f0 step1 step0 run by blast
qed

section \<open>C10: the informational message text\<close>

lemma statusMessage_faces_block_exact:
  "statusMessage (faces_block m r d x) =
     (if m \<and> \<not> r \<and> (\<exists>f fs. faces d = Some (f # fs)) \<and> truthy_bool (at_target_distance d)
         \<and> 14 \<le> consecutiveTargetFrames x
      then TargetReached else statusMessage x)"
  by (auto simp add: faces_block_def Let_def statusMessage_startCountdown
      split: option.splits list.splits)

lemma statusMessage_success_fields_exact:
  "statusMessage (success_fields now d s) =
     (case message d of
        None \<Rightarrow> statusMessage s
      | Some t \<Rightarrow> if includes_str (toLowerCase t) ''calibration complete''
                  then CalibrationComplete else statusMessage s)"
  by (simp add: success_fields_def Let_def split: option.splits)

text \<open>
  C10, as stated, says that every parsed message with a message text sets the status
  text to it unless the text holds \<open>Authenticated successfully\<close>, and that a suppressed
  text leaves the status text unchanged. A message that also carries an error text
  returns before its message text is read; and a suppressed text that also completes
  calibration still gets the calibration status.
\<close>

theorem C10_error_hides_message:
  "\<not> includes_str ''hello'' ''Authenticated successfully''
   \<and> statusMessage (snd (snd (deliver 0 (session, calibrated)
        (JsonObject (blank\<lparr>error := Some ''boom'', message := Some ''hello''\<rparr>)))))
       = ErrorPrefix ''boom''
   \<and> includes_str ''Authenticated successfully. Calibration complete''
        ''Authenticated successfully''
   \<and> statusMessage calibrated = Verbatim []
   \<and> statusMessage (snd (snd (deliver 0 (session, calibrated)
        (JsonObject (blank\<lparr>success := Some True,
            message := Some ''Authenticated successfully. Calibration complete''\<rparr>)))))
       = CalibrationComplete"
  by (simp add: deliver_def onmessage_def handle_message_def blank_def truthy_str_def
      truthy_bool_def calibrated_def mount_def success_block_def success_fields_def
      faces_block_def message_block_def toLowerCase_def lower_char_def)

text \<open>
  C10, amended: take a parsed message whose fields have the types of the wire format
  and that carries a non-empty message text, handled by a handler whose closure holds
  \<open>m\<close> for the measuring flag and \<open>r\<close> for distance-reached (the handler registered by
  the render of the current state holds that state's flags). If the message carries a
  non-empty error text, the handler returns with the status text set to the error text
  and the message text is not read. Otherwise the handler returns normally and the
  status text ends as the message text verbatim, unless the text contains
  \<open>Authenticated successfully\<close>. In that case the text is not written, and the status
  text is: the target-reached status when this message fires the transition into the
  countdown (success flag, closure measuring and not reached, a face, the at-target
  flag, streak at least 14 before); else the calibration-complete status when the
  message has the success flag and its text, in lower case, contains
  \<open>calibration complete\<close>; else the status text before the message.
\<close>

theorem C10_status_after_message:
  assumes t: "message d = Some t" and ne: "t \<noteq> []"
  shows "(\<forall>e. error d = Some e \<and> e \<noteq> [] \<longrightarrow>
          handle_message m r now (a, s) (JsonObject d)
            = Inr (if includes_str e ''Authentication'' then logout a else a,
                   s\<lparr>statusMessage := ErrorPrefix e\<rparr>))
    \<and> (\<not> truthy_str (error d) \<longrightarrow>
         (\<exists>s'. handle_message m r now (a, s) (JsonObject d) = Inr (a, s')
            \<and> statusMessage s' =
                (if \<not> includes_str t ''Authenticated successfully'' then Verbatim t
                 else if truthy_bool (success d) \<and> m \<and> \<not> r
                         \<and> (\<exists>f fs. faces d = Some (f # fs))
                         \<and> truthy_bool (at_target_distance d)
                         \<and> 14 \<le> consecutiveTargetFrames s
                      then TargetReached
                 else if truthy_bool (success d)
                         \<and> includes_str (toLowerCase t) ''calibration complete''
                      then CalibrationComplete
                 else statusMessage s)))
    \<and> onmessage now (a, s) (JsonObject d)
        = handle_message (isMeasuring s) (isDistanceReached s) now (a, s) (JsonObject d)"
proof (intro conjI allI impI)
  fix e assume "error d = Some e \<and> e \<noteq> []"
  then show "handle_message m r now (a, s) (JsonObject d)
            = Inr (if includes_str e ''Authentication'' then logout a else a,
                   s\<lparr>statusMessage := ErrorPrefix e\<rparr>)"
    by (simp add: handle_message_def truthy_str_def)
next
  assume e: "\<not> truthy_str (error d)"
  show "\<exists>s'. handle_message m r now (a, s) (JsonObject d) = Inr (a, s')
            \<and> statusMessage s' =
                (if \<not> includes_str t ''Authenticated successfully'' then Verbatim t
                 else if truthy_bool (success d) \<and> m \<and> \<not> r
                         \<and> (\<exists>f fs. faces d = Some (f # fs))
                         \<and> truthy_bool (at_target_distance d)
                         \<and> 14 \<le> consecutiveTargetFrames s
                      then TargetReached
                 else if truthy_bool (success d)
                         \<and> includes_str (toLowerCase t) ''calibration complete''
                      then CalibrationComplete
                 else statusMessage s)"
    using e t ne
    by (auto simp add: handle_message_def message_block_def success_block_def
        statusMessage_faces_block_exact statusMessage_success_fields_exact
        control_success_fields(2))
next
  show "onmessage now (a, s) (JsonObject d)
        = handle_message (isMeasuring s) (isDistanceReached s) now (a, s) (JsonObject d)"
    by (simp add: onmessage_def)
qed

theorem C10_status_after_message_witness:
  "\<not> truthy_str (error (blank\<lparr>message := Some ''Move back''\<rparr>))
   \<and> \<not> includes_str ''Move back'' ''Authenticated successfully''
   \<and> (\<exists>s'. onmessage 0 (session, calibrated) (JsonObject (blank\<lparr>message := Some ''Move back''\<rparr>))
            = Inr (session, s')
          \<and> statusMessage s' = Verbatim ''Move back'')
   \<and> (\<exists>s'. onmessage 0 (session, calibrated)
              (JsonObject (blank\<lparr>success := Some True,
                                  message := Some ''Authenticated successfully''\<rparr>))
            = Inr (session, s')
          \<and> statusMessage s' = statusMessage calibrated)
   \<and> onmessage 0 (session, calibrated)
        (JsonObject (blank\<lparr>error := Some ''boom'', message := Some ''hello''\<rparr>))
       = Inr (session, calibrated\<lparr>statusMessage := ErrorPrefix ''boom''\<rparr>)"
proof -
  have e1: "\<not> truthy_str (error (blank\<lparr>message := Some ''Move back''\<rparr>))"
    and e2: "\<not> truthy_str (error (blank\<lparr>success := Some True,
                                  message := Some ''Authenticated successfully''\<rparr>))"
    by (simp_all add: blank_def truthy_str_def)
  have i1: "\<not> includes_str ''Move back'' ''Authenticated successfully''"
    and i2: "includes_str ''Authenticated successfully'' ''Authenticated successfully''"
    and i3: "\<not> includes_str (toLowerCase ''Authenticated successfully'')
                 ''calibration complete''"
    and i4: "\<not> includes_str ''boom'' ''Authentication''"
    by (simp_all add: toLowerCase_def lower_char_def)
  have f2: "faces (blank\<lparr>success := Some True,
                message := Some ''Authenticated successfully''\<rparr>) = None"
    by (simp add: blank_def)
  note plain = C10_status_after_message
    [where d = "blank\<lparr>message := Some ''Move back''\<rparr>" and t = "''Move back''"
       and m = "isMeasuring calibrated" and r = "isDistanceReached calibrated"
       and now = 0 and a = session and s = calibrated]
  note hidden = C10_status_after_message
    [where d = "blank\<lparr>success := Some True, message := Some ''Authenticated successfully''\<rparr>"
       and t = "''Authenticated successfully''"
       and m = "isMeasuring calibrated" and r = "isDistanceReached calibrated"
       and now = 0 and a = session and s = calibrated]
  note err = C10_status_after_message
    [where d = "blank\<lparr>error := Some ''boom'', message := Some ''hello''\<rparr>"
       and t = "''hello''"
       and m = "isMeasuring calibrated" and r = "isDistanceReached calibrated"
       and now = 0 and a = session and s = calibrated]
  have w1: "\<exists>s'. onmessage 0 (session, calibrated)
              (JsonObject (blank\<lparr>message := Some ''Move back''\<rparr>)) = Inr (session, s')
          \<and> statusMessage s' = Verbatim ''Move back''"
    using plain e1 i1 by simp
  have w2: "\<exists>s'. onmessage 0 (session, calibrated)
              (JsonObject (blank\<lparr>success := Some True,
                                  message := Some ''Authenticated successfully''\<rparr>))
            = Inr (session, s')
          \<and> statusMessage s' = statusMessage calibrated"
    using hidden e2 i2 i3 f2 by simp
  have w3: "onmessage 0 (session, calibrated)
        (JsonObject (blank\<lparr>error := Some ''boom'', message := Some ''hello''\<rparr>))
       = Inr (session, calibrated\<lparr>statusMessage := ErrorPrefix ''boom''\<rparr>)"
    using err i4 by simp
  show ?thesis
    using e1 i1 w1 w2 w3 by blast
qed

section \<open>C6: restarting the countdown\<close>

lemma fireTimer_countdown_running:
  assumes "map_of (timers x) i = Some CountdownCb" and "countdownValue x > 1"
  shows "fireTimer i now cam x = x\<lparr>countdownValue := countdownValue x - 1\<rparr>"
  using assms by (simp add: fireTimer_def countdownTick_def)

lemma fireTimer_countdown_done:
  assumes "map_of (timers x) i = Some CountdownCb" and "countdownValue x \<le> 1"
    and "countdownTimerRef x = Some i"
  shows "fireTimer i now cam x =
     (clearInterval i x)\<lparr>showCountdown := False, showLandoltTest := True,
        landoltShown := Suc (landoltShown x), countdownValue := 0\<rparr>"
  using assms by (simp add: fireTimer_def countdownTick_def clearInterval_def)

lemma fireTimer_inactive:
  assumes "map_of (timers x) i = None"
  shows "fireTimer i now cam x = x"
  using assms by (simp add: fireTimer_def)

lemma fireTimes_snoc:
  "fireTimes (Suc n) i now cam x = fireTimer i now cam (fireTimes n i now cam x)"
  by (induction n arbitrary: x) simp_all

lemma fireTimes_countdown_running:
  assumes "map_of (timers x) i = Some CountdownCb" and "countdownValue x = int (Suc n)"
  shows "fireTimes n i now cam x = x\<lparr>countdownValue := 1\<rparr>"
  using assms
proof (induction n arbitrary: x)
  case 0
  then show ?case by simp
next
  case (Suc n)
  have "fireTimer i now cam x = x\<lparr>countdownValue := countdownValue x - 1\<rparr>"
    using Suc.prems by (intro fireTimer_countdown_running) simp_all
  moreover have "fireTimes n i now cam (x\<lparr>countdownValue := countdownValue x - 1\<rparr>)
      = x\<lparr>countdownValue := countdownValue x - 1\<rparr>\<lparr>countdownValue := 1\<rparr>"
    using Suc.prems by (intro Suc.IH) simp_all
  ultimately show ?case by simp
qed

lemma fireTimes_countdown_done:
  assumes t: "map_of (timers x) i = Some CountdownCb" and r: "countdownTimerRef x = Some i"
    and v: "countdownValue x = int (Suc n)"
  shows "fireTimes (Suc n) i now cam x =
     (clearInterval i x)\<lparr>showCountdown := False, showLandoltTest := True,
        landoltShown := Suc (landoltShown x), countdownValue := 0\<rparr>"
proof -
  have "fireTimes (Suc n) i now cam x = fireTimer i now cam (x\<lparr>countdownValue := 1\<rparr>)"
    using fireTimes_countdown_running [OF t v] by (simp only: fireTimes_snoc)
  also have "\<dots> = (clearInterval i (x\<lparr>countdownValue := 1\<rparr>))\<lparr>showCountdown := False,
        showLandoltTest := True,
        landoltShown := Suc (landoltShown (x\<lparr>countdownValue := 1\<rparr>)), countdownValue := 0\<rparr>"
    using t r by (intro fireTimer_countdown_done) simp_all
  finally show ?thesis by (simp add: clearInterval_def)
qed

lemma timers_startCountdown:
  "timers (startCountdown s) =
     filter (\<lambda>p. Some (fst p) \<noteq> detectionInterval s \<and> Some (fst p) \<noteq> countdownTimerRef s)
       (timers s) @ [(nextTimer s, CountdownCb)]"
  "countdownTimerRef (startCountdown s) = Some (nextTimer s)"
  "nextTimer (startCountdown s) = Suc (nextTimer s)"
  "detectionInterval (startCountdown s) = None"
  "countdownValue (startCountdown s) = 5"
  "landoltShown (startCountdown s) = landoltShown s"
  using control_startCountdown [of s] by (simp_all add: control_def)

lemma fireTimes_inactive:
  assumes "map_of (timers x) i = None"
  shows "fireTimes k i now cam x = x"
  using assms by (induction k) (simp_all add: fireTimer_inactive)

lemma fireTimes_countdown_before:
  assumes "map_of (timers x) i = Some CountdownCb" and "int j < countdownValue x"
  shows "fireTimes j i now cam x = x\<lparr>countdownValue := countdownValue x - int j\<rparr>"
  using assms
proof (induction j arbitrary: x)
  case 0
  then show ?case by simp
next
  case (Suc j)
  have "fireTimer i now cam x = x\<lparr>countdownValue := countdownValue x - 1\<rparr>"
    using Suc.prems by (intro fireTimer_countdown_running) simp_all
  moreover have "fireTimes j i now cam (x\<lparr>countdownValue := countdownValue x - 1\<rparr>)
      = x\<lparr>countdownValue := countdownValue x - 1\<rparr>
          \<lparr>countdownValue := countdownValue (x\<lparr>countdownValue := countdownValue x - 1\<rparr>) - int j\<rparr>"
    using Suc.prems by (intro Suc.IH) simp_all
  ultimately show ?case by (simp add: algebra_simps)
qed

text \<open>
  C6: take a state in which every countdown interval still active is the one held in
  the countdown timer ref, and every active handle is below the next handle. After two
  calls of \<open>startCountdown\<close> with no tick between them, exactly one countdown interval
  is active, the second; the first was cleared, and however often its handle fires,
  nothing happens. The second interval counts 5, 4, 3, 2, 1: its first four ticks do
  not show the vision test, the fifth shows it, once, hides the countdown and clears
  the interval. After that no countdown interval is active, and further firings of the
  handle change nothing.
\<close>

theorem C6_restart_single_handoff:
  assumes own: "\<forall>p\<in>set (timers s). snd p = CountdownCb \<longrightarrow> Some (fst p) = countdownTimerRef s"
    and fresh: "\<forall>p\<in>set (timers s). fst p < nextTimer s"
  shows "filter (\<lambda>p. snd p = CountdownCb) (timers (startCountdown (startCountdown s)))
           = [(Suc (nextTimer s), CountdownCb)]
    \<and> fireTimes k (nextTimer s) now cam (startCountdown (startCountdown s))
         = startCountdown (startCountdown s)
    \<and> (\<forall>j<5. landoltShown (fireTimes j (Suc (nextTimer s)) now cam
                  (startCountdown (startCountdown s))) = landoltShown s)
    \<and> landoltShown (fireTimes 5 (Suc (nextTimer s)) now cam
          (startCountdown (startCountdown s))) = Suc (landoltShown s)
    \<and> showLandoltTest (fireTimes 5 (Suc (nextTimer s)) now cam
          (startCountdown (startCountdown s)))
    \<and> \<not> showCountdown (fireTimes 5 (Suc (nextTimer s)) now cam
          (startCountdown (startCountdown s)))
    \<and> filter (\<lambda>p. snd p = CountdownCb) (timers (fireTimes 5 (Suc (nextTimer s)) now cam
          (startCountdown (startCountdown s)))) = []
    \<and> fireTimes k (Suc (nextTimer s)) now cam (fireTimes 5 (Suc (nextTimer s)) now cam
          (startCountdown (startCountdown s)))
         = fireTimes 5 (Suc (nextTimer s)) now cam (startCountdown (startCountdown s))"
proof -
  let ?n = "nextTimer s"
  let ?s2 = "startCountdown (startCountdown s)"
  let ?old = "filter (\<lambda>p. fst p \<noteq> ?n \<and> Some (fst p) \<noteq> detectionInterval s
                \<and> Some (fst p) \<noteq> countdownTimerRef s) (timers s)"
  have "timers ?s2 =
      filter (\<lambda>p. Some (fst p) \<noteq> None \<and> Some (fst p) \<noteq> Some ?n)
        (filter (\<lambda>p. Some (fst p) \<noteq> detectionInterval s
                     \<and> Some (fst p) \<noteq> countdownTimerRef s) (timers s)
           @ [(?n, CountdownCb)])
      @ [(Suc ?n, CountdownCb)]"
    by (simp add: timers_startCountdown)
  also have "\<dots> = ?old @ [(Suc ?n, CountdownCb)]"
    by (auto intro: filter_cong)
  finally have tm: "timers ?s2 = ?old @ [(Suc ?n, CountdownCb)]" .
  have ref: "countdownTimerRef ?s2 = Some (Suc ?n)"
    and cv: "countdownValue ?s2 = 5" and ls: "landoltShown ?s2 = landoltShown s"
    by (simp_all add: timers_startCountdown)
  have noold: "filter (\<lambda>p. snd p = CountdownCb) ?old = []"
    using own by (auto simp: filter_empty_conv)
  have one: "filter (\<lambda>p. snd p = CountdownCb) (timers ?s2) = [(Suc ?n, CountdownCb)]"
    using noold by (simp add: tm)
  have keys: "fst ` set ?old \<subseteq> {i. i < ?n}"
    using fresh by auto
  have dead: "map_of (timers ?s2) ?n = None"
    unfolding tm by (auto simp: map_add_def map_of_eq_None_iff split: option.splits)
  have "map_of ?old (Suc ?n) = None"
    using keys by (auto simp: map_of_eq_None_iff)
  then have live: "map_of (timers ?s2) (Suc ?n) = Some CountdownCb"
    unfolding tm by (simp add: map_add_def)
  let ?y = "fireTimes 5 (Suc ?n) now cam ?s2"
  have "countdownValue ?s2 = int (Suc 4)" using cv by simp
  from fireTimes_countdown_done [OF live ref this, of now cam]
  have y: "?y = (clearInterval (Suc ?n) ?s2)\<lparr>showCountdown := False, showLandoltTest := True,
        landoltShown := Suc (landoltShown ?s2), countdownValue := 0\<rparr>"
    by (simp add: eval_nat_numeral)
  have ty: "timers ?y = ?old"
    using fresh unfolding y by (auto simp: clearInterval_def tm intro!: filter_cong)
  have before: "landoltShown (fireTimes j (Suc ?n) now cam ?s2) = landoltShown s" if "j < 5" for j
    using fireTimes_countdown_before [OF live, of j now cam] that cv ls by simp
  have gone: "map_of (timers ?y) (Suc ?n) = None"
    unfolding ty using \<open>map_of ?old (Suc ?n) = None\<close> .
  have sy: "landoltShown ?y = Suc (landoltShown s)" "showLandoltTest ?y" "\<not> showCountdown ?y"
    by (simp_all add: y ls clearInterval_def)
  have cdy: "filter (\<lambda>p. snd p = CountdownCb) (timers ?y) = []"
    using noold by (simp only: ty)
  have stay: "fireTimes k (Suc ?n) now cam ?y = ?y"
    by (rule fireTimes_inactive [OF gone])
  have deadk: "fireTimes k ?n now cam ?s2 = ?s2"
    by (rule fireTimes_inactive [OF dead])
  show ?thesis
    using one deadk before sy cdy stay by blast
qed

theorem C6_restart_single_handoff_witness:
  "timers measuring = [(1, SendFrameCb False 0)] \<and> countdownTimerRef measuring = None
   \<and> nextTimer measuring = 2 \<and> landoltShown measuring = 0
   \<and> filter (\<lambda>p. snd p = CountdownCb) (timers (startCountdown (startCountdown measuring)))
       = [(Suc 2, CountdownCb)]
   \<and> landoltShown (fireTimes 4 (Suc 2) 0 NoWebcam (startCountdown (startCountdown measuring)))
       = 0
   \<and> landoltShown (fireTimes 5 (Suc 2) 0 NoWebcam (startCountdown (startCountdown measuring)))
       = Suc 0
   \<and> fireTimes 7 (Suc 2) 0 NoWebcam
        (fireTimes 5 (Suc 2) 0 NoWebcam (startCountdown (startCountdown measuring)))
       = fireTimes 5 (Suc 2) 0 NoWebcam (startCountdown (startCountdown measuring))"
proof -
  have own: "\<forall>p\<in>set (timers measuring).
      snd p = CountdownCb \<longrightarrow> Some (fst p) = countdownTimerRef measuring"
    by (simp add: measuring_state calibrated_def mount_def)
  have fresh: "\<forall>p\<in>set (timers measuring). fst p < nextTimer measuring"
    by (simp add: measuring_state calibrated_def mount_def)
  have v: "nextTimer measuring = 2" "landoltShown measuring = 0"
    and u: "timers measuring = [(1, SendFrameCb False 0)]" "countdownTimerRef measuring = None"
    by (simp_all add: measuring_state calibrated_def mount_def)
  have n: "(4::nat) < 5"
    by simp
  note c = C6_restart_single_handoff
    [OF own fresh, where k = 7 and now = 0 and cam = NoWebcam, unfolded v]
  show ?thesis
    using u v c n by blast
qed

section \<open>C9: the scheduler after the target was reached\<close>

lemmas run_defs =
  eval_nat_numeral measuring_state calibrated_def mount_def session_def dispatch_def
  deliver_def onmessage_def handle_message_def success_block_def success_fields_def
  faces_block_def message_block_def blank_def on_target_def truthy_str_def truthy_bool_def
  startCountdown_def stopMeasuringDistance_def connected_def ws_send_def clearInterval_def
  setInterval_def Let_def onopen_def socket_effect_def ws_close_def fireTimer_def
  countdownTick_def closeLandoltTest_def startMeasuringDistance_def sendFrame_def
  screenshot_def

lemma target_held_state:
  "target_held = calibrated\<lparr>isMeasuring := False, isDistanceReached := True,
     atTargetDistance := True, currentDistance := Metres 4, lastFaceDetected := 1000,
     consecutiveTargetFrames := 15, showCountdown := True, countdownValue := 5,
     detectionInterval := None, countdownTimerRef := Some 2, timers := [(2, CountdownCb)],
     nextTimer := 3, statusMessage := TargetReached,
     sent := [Command ''start_distance'', AuthToken (Some ''tok''), Command ''stop_all'']\<rparr>"
  unfolding target_held_def by (simp add: run_defs)

lemma test_closed_state:
  "test_closed = calibrated\<lparr>isMeasuring := False, isDistanceReached := True,
     atTargetDistance := True, currentDistance := Metres 4, lastFaceDetected := 1000,
     consecutiveTargetFrames := 15, showCountdown := False, countdownValue := 0,
     showLandoltTest := False, landoltShown := 1,
     detectionInterval := None, countdownTimerRef := Some 2, timers := [],
     nextTimer := 3, statusMessage := TargetReached,
     sent := [Command ''start_distance'', AuthToken (Some ''tok''), Command ''stop_all'',
              AuthToken (Some ''tok'')]\<rparr>"
  unfolding test_closed_def target_held_state by (simp add: run_defs)

lemma measuring_again_state:
  "measuring_again = calibrated\<lparr>isMeasuring := True, isDistanceReached := False,
     atTargetDistance := False, currentDistance := Metres 4, lastFaceDetected := 1000,
     consecutiveTargetFrames := 0, showCountdown := False, countdownValue := 0,
     showLandoltTest := False, landoltShown := 1,
     detectionInterval := Some 3, countdownTimerRef := Some 2,
     timers := [(3, SendFrameCb True 1000)],
     nextTimer := 4, statusMessage := MeasuringHint,
     sent := [Command ''start_distance'', AuthToken (Some ''tok''), Command ''stop_all'',
              AuthToken (Some ''tok''), Command ''start_distance'',
              AuthToken (Some ''tok'')]\<rparr>"
  unfolding measuring_again_def test_closed_state by (simp add: run_defs)

lemma face_seen_state: "face_seen = measuring_again\<lparr>lastFaceDetected := 7000\<rparr>"
  unfolding face_seen_def measuring_again_state by (simp add: run_defs)

text \<open>
  C9 says that while distance-reached holds, every transmitted frame that comes more
  than 5000 ms after the last face-detected event adds one to frames-since-last-face,
  and that above 10 the measurement completes by itself. \<open>sendFrame\<close> is written for
  that (a \<open>useCallback\<close> over \<open>isDistanceReached\<close> and \<open>lastFaceDetected\<close>), but the
  code does something else, in two ways.

  First, the transition that sets distance-reached also clears the scheduler's
  interval: in \<open>target_held\<close> the only active interval is the countdown, and firing the
  scheduler's old handle 11 times at 9000 ms, with a webcam and an open socket or not,
  changes nothing. While distance-reached holds no frame is transmitted, the counter
  stays where it is and there is no completion.

  Second, the interval keeps the \<open>sendFrame\<close> of the render in which measuring was
  started. In the Measure Again run that closure holds distance-reached true and the
  last-face time 1000 of the click. So in \<open>face_seen\<close>, where distance-reached is
  false (the phase is Measuring) and a face was seen at 7000 ms, 11 frames sent at
  8000 ms, only 1000 ms later, are all counted and the 11th completes the measurement.
\<close>

theorem C9_scheduler_reads_stale_closure:
  "isDistanceReached target_held \<and> timers target_held = [(2, CountdownCb)]
   \<and> fireTimes 11 1 9000 (Webcam (Some ''jpeg'')) target_held = target_held
   \<and> timers measuring_again = [(3, SendFrameCb True 1000)]
   \<and> \<not> isDistanceReached face_seen \<and> connected face_seen
   \<and> lastFaceDetected face_seen = 7000 \<and> framesSinceLastFace face_seen = 0
   \<and> framesSinceLastFace (fireTimes 11 3 8000 (Webcam (Some ''jpeg'')) face_seen) = 11
   \<and> statusMessage (fireTimes 11 3 8000 (Webcam (Some ''jpeg'')) face_seen)
       = MeasurementComplete
   \<and> \<not> isMeasuring (fireTimes 11 3 8000 (Webcam (Some ''jpeg'')) face_seen)"
  unfolding face_seen_state measuring_again_state target_held_state
  by (simp add: run_defs)

end
